theory Spec2Isabelle
  imports Main "HOL-Library.Log_Nat" "HOL-Library.Sublist" "HOL-Library.AList"
begin

section \<open>Python values\<close>

subsection \<open>Exceptions\<close>

text \<open>
  An exception is a value: its class and the text that \<open>str(e)\<close> gives. A function that can
  raise returns \<open>py_error + 'a\<close>, with \<open>Inl\<close> for the exception that leaves the function.
  A \<open>KeyError\<close> carries the \<open>repr\<close> of the missing key, which is what \<open>str(e)\<close> prints.
\<close>

datatype py_error =
    KeyError string
  | IndexError string
  | TypeError string
  | ValueError string
  | ZeroDivisionError string
  | OverflowError string
  | RequestException string

fun exc_str :: "py_error \<Rightarrow> string" where
  "exc_str (KeyError k) = k"
| "exc_str (IndexError m) = m"
| "exc_str (TypeError m) = m"
| "exc_str (ValueError m) = m"
| "exc_str (ZeroDivisionError m) = m"
| "exc_str (OverflowError m) = m"
| "exc_str (RequestException m) = m"

definition py_bind :: "py_error + 'a \<Rightarrow> ('a \<Rightarrow> py_error + 'b) \<Rightarrow> py_error + 'b" where
  "py_bind r f = (case r of Inl e \<Rightarrow> Inl e | Inr v \<Rightarrow> f v)"

text \<open>\<open>try: body except Exception as e: handler\<close>, where the handler returns.\<close>

definition try_except :: "py_error + 'a \<Rightarrow> (py_error \<Rightarrow> py_error + 'a) \<Rightarrow> py_error + 'a" where
  "try_except body handler = (case body of Inl e \<Rightarrow> handler e | Inr v \<Rightarrow> Inr v)"

subsection \<open>Floats: IEEE 754 binary64, round to nearest, ties to even\<close>

text \<open>
  A Python \<open>float\<close> is a binary64 value. A finite one is written by the rational it denotes:
  \<open>Fin 0\<close> is \<open>0.0\<close> and \<open>NZero\<close> is \<open>-0.0\<close>, which \<open>str\<close> and \<open>round\<close> tell apart. Beside them
  stand the two infinities and NaN.
\<close>

datatype pyfloat = Fin rat | NZero | PInf | NInf | NaN

definition pow2 :: "int \<Rightarrow> rat" where
  "pow2 e = (if 0 \<le> e then 2 ^ nat e else 1 / 2 ^ nat (- e))"

definition round_half_even :: "rat \<Rightarrow> int" where
  "round_half_even x =
     (let f = \<lfloor>x\<rfloor>; d = x - of_int f
      in if d < 1 / 2 then f
         else if 1 / 2 < d then f + 1
         else if even f then f else f + 1)"

text \<open>\<open>ilog2 x\<close> is the binary exponent of \<open>x \<noteq> 0\<close>: the \<open>e\<close> with \<open>2^e \<le> |x| < 2^(e+1)\<close>.\<close>

definition ilog2 :: "rat \<Rightarrow> int" where
  "ilog2 x =
     (let a = \<bar>x\<bar>
      in if 1 \<le> a then bitlen \<lfloor>a\<rfloor> - 1
         else - bitlen (\<lceil>1 / a\<rceil> - 1))"

text \<open>
  The binary64 value nearest to a rational: 53 significant bits, exponents from -1022
  (below it the spacing stays \<open>2^-1074\<close>: subnormals), an infinity once the rounded
  magnitude reaches \<open>2^1024\<close>. The zero it gives is \<open>Fin 0\<close>; \<open>round_signed\<close> gives the zero
  the sign of the operation.
\<close>

definition round_double :: "rat \<Rightarrow> pyfloat" where
  "round_double x =
     (if x = 0 then Fin 0
      else
        let e = max (ilog2 x) (- 1022);
            q = pow2 (e - 52);
            v = of_int (round_half_even (x / q)) * q
        in if pow2 1024 \<le> \<bar>v\<bar> then (if 0 < x then PInf else NInf) else Fin v)"

definition signed_zero :: "bool \<Rightarrow> pyfloat" where
  "signed_zero neg = (if neg then NZero else Fin 0)"

definition signed_inf :: "bool \<Rightarrow> pyfloat" where
  "signed_inf neg = (if neg then NInf else PInf)"

definition round_signed :: "bool \<Rightarrow> rat \<Rightarrow> pyfloat" where
  "round_signed neg x =
     (case round_double x of
        Fin v \<Rightarrow> (if v = 0 then signed_zero neg else Fin v)
      | f \<Rightarrow> f)"

text \<open>A decimal literal of the source, such as \<open>0.15\<close>, denotes the double nearest to it.\<close>

definition float_lit :: "rat \<Rightarrow> pyfloat" where
  "float_lit x = round_double x"

text \<open>The sign bit, and the value of a finite float.\<close>

fun is_neg :: "pyfloat \<Rightarrow> bool" where
  "is_neg (Fin x) = (x < 0)"
| "is_neg NZero = True"
| "is_neg PInf = False"
| "is_neg NInf = True"
| "is_neg NaN = False"

fun fin_val :: "pyfloat \<Rightarrow> rat option" where
  "fin_val (Fin x) = Some x"
| "fin_val NZero = Some 0"
| "fin_val f = None"

text \<open>
  The IEEE product: the sign is the exclusive or of the signs, also on a zero; zero times
  an infinity is NaN.
\<close>

definition fmul :: "pyfloat \<Rightarrow> pyfloat \<Rightarrow> pyfloat" where
  "fmul a b =
     (if a = NaN \<or> b = NaN then NaN
      else
        let neg = (is_neg a \<noteq> is_neg b)
        in case (fin_val a, fin_val b) of
             (Some x, Some y) \<Rightarrow> round_signed neg (x * y)
           | (Some x, None) \<Rightarrow> (if x = 0 then NaN else signed_inf neg)
           | (None, Some y) \<Rightarrow> (if y = 0 then NaN else signed_inf neg)
           | (None, None) \<Rightarrow> signed_inf neg)"

text \<open>The IEEE quotient by a divisor that is not zero (Python raises before dividing by zero).\<close>

definition fdiv :: "pyfloat \<Rightarrow> pyfloat \<Rightarrow> pyfloat" where
  "fdiv a b =
     (if a = NaN \<or> b = NaN then NaN
      else
        let neg = (is_neg a \<noteq> is_neg b)
        in case (fin_val a, fin_val b) of
             (Some x, Some y) \<Rightarrow> round_signed neg (x / y)
           | (Some x, None) \<Rightarrow> signed_zero neg
           | (None, Some y) \<Rightarrow> signed_inf neg
           | (None, None) \<Rightarrow> NaN)"

text \<open>\<open>a > b\<close> and \<open>a <= b\<close>: false on NaN, and the two zeros are equal.\<close>

fun fgt :: "pyfloat \<Rightarrow> pyfloat \<Rightarrow> bool" where
  "fgt NaN _ = False"
| "fgt _ NaN = False"
| "fgt (Fin x) (Fin y) = (y < x)"
| "fgt (Fin x) NZero = (0 < x)"
| "fgt NZero (Fin y) = (y < 0)"
| "fgt NZero NZero = False"
| "fgt (Fin x) PInf = False"
| "fgt NZero PInf = False"
| "fgt (Fin x) NInf = True"
| "fgt NZero NInf = True"
| "fgt PInf PInf = False"
| "fgt PInf _ = True"
| "fgt NInf _ = False"

fun fle :: "pyfloat \<Rightarrow> pyfloat \<Rightarrow> bool" where
  "fle NaN _ = False"
| "fle _ NaN = False"
| "fle (Fin x) (Fin y) = (x \<le> y)"
| "fle (Fin x) NZero = (x \<le> 0)"
| "fle NZero (Fin y) = (0 \<le> y)"
| "fle NZero NZero = True"
| "fle (Fin x) PInf = True"
| "fle NZero PInf = True"
| "fle (Fin x) NInf = False"
| "fle NZero NInf = False"
| "fle PInf PInf = True"
| "fle PInf _ = False"
| "fle NInf _ = True"

subsection \<open>Numbers: \<open>int\<close> and \<open>float\<close>\<close>

datatype pynum = PInt int | PFloat pyfloat

text \<open>Python orders an \<open>int\<close> and a \<open>float\<close> by the values they denote, without rounding.\<close>

fun exact :: "pynum \<Rightarrow> pyfloat" where
  "exact (PInt i) = Fin (of_int i)"
| "exact (PFloat f) = f"

definition py_gt :: "pynum \<Rightarrow> pynum \<Rightarrow> bool" where
  "py_gt a b = fgt (exact a) (exact b)"

definition py_le :: "pynum \<Rightarrow> pynum \<Rightarrow> bool" where
  "py_le a b = fle (exact a) (exact b)"

text \<open>\<open>float(i)\<close>, as arithmetic converts an \<open>int\<close> operand that meets a \<open>float\<close>.\<close>

definition int_to_float :: "int \<Rightarrow> py_error + pyfloat" where
  "int_to_float i =
     (case round_double (of_int i) of
        Fin v \<Rightarrow> Inr (Fin v)
      | _ \<Rightarrow> Inl (OverflowError ''int too large to convert to float''))"

fun to_float :: "pynum \<Rightarrow> py_error + pyfloat" where
  "to_float (PInt i) = int_to_float i"
| "to_float (PFloat f) = Inr f"

text \<open>\<open>a * b\<close>: exact on two ints, the rounded IEEE product otherwise.\<close>

fun py_mul :: "pynum \<Rightarrow> pynum \<Rightarrow> py_error + pynum" where
  "py_mul (PInt a) (PInt b) = Inr (PInt (a * b))"
| "py_mul a b =
     py_bind (to_float a) (\<lambda>x. py_bind (to_float b) (\<lambda>y. Inr (PFloat (fmul x y))))"

text \<open>
  \<open>a / b\<close>: true division. Two ints give the correctly rounded quotient, a zero of the sign
  of the quotient (\<open>0 / -5\<close> is \<open>-0.0\<close>), or \<open>OverflowError\<close> when it is beyond the floats;
  otherwise the IEEE quotient.
\<close>

fun py_truediv :: "pynum \<Rightarrow> pynum \<Rightarrow> py_error + pynum" where
  "py_truediv (PInt a) (PInt b) =
     (if b = 0 then Inl (ZeroDivisionError ''division by zero'')
      else case round_signed ((a < 0) \<noteq> (b < 0)) (of_int a / of_int b) of
             PInf \<Rightarrow> Inl (OverflowError ''integer division result too large for a float'')
           | NInf \<Rightarrow> Inl (OverflowError ''integer division result too large for a float'')
           | f \<Rightarrow> Inr (PFloat f))"
| "py_truediv a b =
     py_bind (to_float a) (\<lambda>x. py_bind (to_float b) (\<lambda>y.
       if fin_val y = Some 0 then Inl (ZeroDivisionError ''float division by zero'')
       else Inr (PFloat (fdiv x y))))"

text \<open>
  \<open>round(x, 4)\<close>: an \<open>int\<close> is returned as it is; a finite \<open>float\<close> is rounded, on the value
  it denotes, to four decimals with ties to even, and the decimal is read back as the
  nearest double, a zero with the sign of \<open>x\<close>; an infinity or NaN rounds to itself.
\<close>

fun py_round4 :: "pynum \<Rightarrow> pynum" where
  "py_round4 (PInt i) = PInt i"
| "py_round4 (PFloat (Fin x)) =
     PFloat (round_signed (x < 0) (of_int (round_half_even (x * 10000)) / 10000))"
| "py_round4 (PFloat f) = PFloat f"

section \<open>The agent functions\<close>

subsection \<open>\<open>evaluate_brightness\<close>\<close>

definition evaluate_brightness :: "pynum \<Rightarrow> pynum" where
  "evaluate_brightness lux =
     (if py_gt lux (PInt 500) then PInt 10
      else if py_gt lux (PInt 300) then PInt 40
      else PInt 80)"

subsection \<open>\<open>calculate_energy_kwh\<close> and \<open>calculate_cost\<close>\<close>

text \<open>The parameters \<open>hours\<close>, \<open>watt\<close> and \<open>rate\<close> are explicit; their defaults are named.\<close>

definition default_hours :: pynum where
  "default_hours = PInt 1"

definition default_watt :: pynum where
  "default_watt = PInt 40"

definition default_rate :: pynum where
  "default_rate = PFloat (float_lit (15 / 100))"

definition calculate_energy_kwh :: "pynum \<Rightarrow> pynum \<Rightarrow> pynum \<Rightarrow> py_error + pynum" where
  "calculate_energy_kwh brightness_percent hours watt =
     py_bind (py_truediv brightness_percent (PInt 100)) (\<lambda>a.
     py_bind (py_mul a watt) (\<lambda>b.
     py_bind (py_mul b hours) (\<lambda>c.
     py_bind (py_truediv c (PInt 1000)) (\<lambda>d.
     Inr (py_round4 d)))))"

definition calculate_cost :: "pynum \<Rightarrow> pynum \<Rightarrow> py_error + pynum" where
  "calculate_cost kwh rate = py_bind (py_mul kwh rate) (\<lambda>p. Inr (py_round4 p))"

section \<open>Tables\<close>

text \<open>
  A cell is a Python value as a table holds it: text, a number, a time of day
  (\<open>datetime.time\<close> of a given hour and minute, its seconds zero) or the missing time
  \<open>NaT\<close>. A \<open>DataFrame\<close> is its columns in order, each a list of cells, over the rows
  \<open>0 .. n_rows - 1\<close>; a row is labelled by its position, as \<open>read_csv\<close> labels it.
\<close>

datatype cell = Str string | Num pynum | Tod nat nat | NaT

record dataframe =
  n_rows :: nat
  cols :: "(string \<times> cell list) list"

definition wf_frame :: "dataframe \<Rightarrow> bool" where
  "wf_frame df = list_all (\<lambda>(c, col). length col = n_rows df) (cols df)"

definition quoted :: "string \<Rightarrow> string" where
  "quoted s = CHR 0x27 # s @ [CHR 0x27]"

text \<open>\<open>df[c]\<close>: the column, or \<open>KeyError\<close>.\<close>

definition getitem :: "dataframe \<Rightarrow> string \<Rightarrow> py_error + cell list" where
  "getitem df c = (case map_of (cols df) c of None \<Rightarrow> Inl (KeyError (quoted c)) | Some col \<Rightarrow> Inr col)"

text \<open>\<open>df[c] = col\<close>: replaces the column where it stands, or adds it as the last one.\<close>

definition setitem :: "dataframe \<Rightarrow> string \<Rightarrow> cell list \<Rightarrow> dataframe" where
  "setitem df c col = df\<lparr>cols := AList.update c col (cols df)\<rparr>"

definition digit_char :: "nat \<Rightarrow> char" where
  "digit_char d = ''0123456789'' ! d"

fun nat_str :: "nat \<Rightarrow> string" where
  "nat_str n =
     (if n < 10 then [digit_char n]
      else nat_str (n div 10) @ [digit_char (n mod 10)])"

definition int_str :: "int \<Rightarrow> string" where
  "int_str i = (if i < 0 then CHR ''-'' # nat_str (nat (- i)) else nat_str (nat i))"

definition two_digits :: "nat \<Rightarrow> string" where
  "two_digits n = (if n < 10 then CHR ''0'' # nat_str n else nat_str n)"

text \<open>The cell of row \<open>label\<close> in column \<open>c\<close>.\<close>

definition loc :: "dataframe \<Rightarrow> nat \<Rightarrow> string \<Rightarrow> py_error + cell" where
  "loc df label c =
     py_bind (getitem df c) (\<lambda>col.
       if label < length col then Inr (col ! label) else Inl (KeyError (nat_str label)))"

text \<open>
  The dtype of a column: \<open>int64\<close> when it holds ints of 64 bits only, \<open>float64\<close> when it holds
  floats only, \<open>object\<close> otherwise. \<open>iterrows\<close> gives each row as one \<open>Series\<close>, whose values share
  one dtype: on a table of numeric columns that are not all \<open>int64\<close> the ints of a row come
  as floats; as soon as one column holds objects (text, times), every value comes as it is.
\<close>

datatype dtype = Int64 | Float64 | Object

fun is_int64 :: "cell \<Rightarrow> bool" where
  "is_int64 (Num (PInt i)) = (- (2 ^ 63) \<le> i \<and> i < 2 ^ 63)"
| "is_int64 _ = False"

fun is_float64 :: "cell \<Rightarrow> bool" where
  "is_float64 (Num (PFloat _)) = True"
| "is_float64 _ = False"

definition col_dtype :: "cell list \<Rightarrow> dtype" where
  "col_dtype col =
     (if list_all is_int64 col then Int64
      else if list_all is_float64 col then Float64
      else Object)"

definition common_dtype :: "dataframe \<Rightarrow> dtype" where
  "common_dtype df =
     (let ds = map (\<lambda>(c, col). col_dtype col) (cols df)
      in if list_all (\<lambda>d. d = Int64) ds then Int64
         else if list_all (\<lambda>d. d \<noteq> Object) ds then Float64
         else Object)"

fun astype_float :: "cell \<Rightarrow> cell" where
  "astype_float (Num (PInt i)) = Num (PFloat (round_double (of_int i)))"
| "astype_float c = c"

text \<open>A cell as a row of \<open>iterrows\<close> holds it, and \<open>row[c]\<close> for the row \<open>i\<close>.\<close>

definition row_value :: "dataframe \<Rightarrow> cell \<Rightarrow> cell" where
  "row_value df v = (if common_dtype df = Float64 then astype_float v else v)"

definition row_item :: "dataframe \<Rightarrow> nat \<Rightarrow> string \<Rightarrow> py_error + cell" where
  "row_item df i c = py_bind (loc df i c) (\<lambda>v. Inr (row_value df v))"

text \<open>A function applied to each element in turn; the first exception ends it.\<close>

fun sequence :: "(py_error + 'a) list \<Rightarrow> py_error + 'a list" where
  "sequence [] = Inr []"
| "sequence (r # rs) = py_bind r (\<lambda>v. py_bind (sequence rs) (\<lambda>vs. Inr (v # vs)))"

definition series_apply :: "('a \<Rightarrow> py_error + 'b) \<Rightarrow> 'a list \<Rightarrow> py_error + 'b list" where
  "series_apply f col = sequence (map f col)"

section \<open>The enrichment of \<open>main\<close>\<close>

text \<open>
  \<open>df['brightness'] = df['lux'].apply(evaluate_brightness)\<close> and the two lines after it:
  each function is applied to the cells of a column, one after the other. A cell that is not
  a number has no order with an \<open>int\<close>: \<open>TypeError\<close>. The columns that the second and the third
  line read back are the ones just computed, so only numbers reach \<open>energy_cell\<close> and
  \<open>cost_cell\<close>.
\<close>

fun cell_type :: "cell \<Rightarrow> string" where
  "cell_type (Str _) = ''str''"
| "cell_type (Num (PInt _)) = ''int''"
| "cell_type (Num (PFloat _)) = ''float''"
| "cell_type (Tod _ _) = ''datetime.time''"
| "cell_type NaT = ''NaTType''"

definition brightness_cell :: "cell \<Rightarrow> py_error + cell" where
  "brightness_cell c =
     (case c of
        Num lux \<Rightarrow> Inr (Num (evaluate_brightness lux))
      | _ \<Rightarrow> Inl (TypeError (quoted ''>'' @ '' not supported between instances of ''
               @ quoted (cell_type c) @ '' and '' @ quoted ''int'')))"

definition energy_cell :: "cell \<Rightarrow> py_error + cell" where
  "energy_cell c =
     (case c of
        Num b \<Rightarrow> py_bind (calculate_energy_kwh b default_hours default_watt) (\<lambda>k. Inr (Num k))
      | _ \<Rightarrow> Inl (TypeError (''unsupported operand type(s) for /: ''
               @ quoted (cell_type c) @ '' and '' @ quoted ''int'')))"

definition cost_cell :: "cell \<Rightarrow> py_error + cell" where
  "cost_cell c =
     (case c of
        Num k \<Rightarrow> py_bind (calculate_cost k default_rate) (\<lambda>p. Inr (Num p))
      | _ \<Rightarrow> Inl (TypeError (''unsupported operand type(s) for *: ''
               @ quoted (cell_type c) @ '' and '' @ quoted ''float'')))"

definition enrich :: "dataframe \<Rightarrow> py_error + dataframe" where
  "enrich df =
     py_bind (getitem df ''lux'') (\<lambda>lux.
     py_bind (series_apply brightness_cell lux) (\<lambda>bs.
     let df1 = setitem df ''brightness'' bs in
     py_bind (getitem df1 ''brightness'') (\<lambda>brightness.
     py_bind (series_apply energy_cell brightness) (\<lambda>es.
     let df2 = setitem df1 ''energy_kwh'' es in
     py_bind (getitem df2 ''energy_kwh'') (\<lambda>energy.
     py_bind (series_apply cost_cell energy) (\<lambda>cs.
     Inr (setitem df2 ''cost'' cs)))))))"

text \<open>The three derived columns of an enriched table, or the exception of the run.\<close>

definition derived :: "py_error + dataframe \<Rightarrow> py_error + (cell list option \<times> cell list option \<times> cell list option)" where
  "derived r =
     py_bind r (\<lambda>d. Inr (map_of (cols d) ''brightness'', map_of (cols d) ''energy_kwh'',
       map_of (cols d) ''cost''))"

section \<open>\<open>get_nearest_time_brightness\<close>\<close>

record datetime =
  dt_date :: int
  dt_hour :: nat
  dt_minute :: nat
  dt_second :: nat
  dt_microsecond :: nat

text \<open>\<open>clock.replace(second=0, microsecond=0)\<close>\<close>

definition replace_second_microsecond :: "datetime \<Rightarrow> datetime" where
  "replace_second_microsecond d = d\<lparr>dt_second := 0, dt_microsecond := 0\<rparr>"

text \<open>\<open>datetime.combine(date, t)\<close> for a time of day of whole minutes.\<close>

definition combine :: "int \<Rightarrow> nat \<times> nat \<Rightarrow> datetime" where
  "combine d t = \<lparr>dt_date = d, dt_hour = fst t, dt_minute = snd t, dt_second = 0, dt_microsecond = 0\<rparr>"

definition second_of_day :: "datetime \<Rightarrow> int" where
  "second_of_day d = int (dt_hour d) * 3600 + int (dt_minute d) * 60 + int (dt_second d)"

text \<open>
  \<open>(a - b).total_seconds()\<close>. The function below calls it on whole seconds only, where the
  float that Python returns is this number.
\<close>

definition total_seconds :: "datetime \<Rightarrow> datetime \<Rightarrow> rat" where
  "total_seconds a b =
     of_int ((dt_date a - dt_date b) * 86400 + (second_of_day a - second_of_day b))
     + (of_nat (dt_microsecond a) - of_nat (dt_microsecond b)) / 1000000"

text \<open>What \<open>.dt.time\<close> leaves in the \<open>parsed_time\<close> column for a parsed and an unparsed value.\<close>

fun time_cell :: "(nat \<times> nat) option \<Rightarrow> cell" where
  "time_cell None = NaT"
| "time_cell (Some (h, m)) = Tod h m"

text \<open>
  \<open>dropna\<close> on a labelled column: the rows with a value, under the labels they had.
\<close>

fun dropna :: "(nat \<times> 'a option) list \<Rightarrow> (nat \<times> 'a) list" where
  "dropna [] = []"
| "dropna ((i, None) # xs) = dropna xs"
| "dropna ((i, Some v) # xs) = (i, v) # dropna xs"

text \<open>\<open>idxmin\<close>: the label of the first least value; \<open>ValueError\<close> on no rows.\<close>

fun least_from :: "nat \<times> rat \<Rightarrow> (nat \<times> rat) list \<Rightarrow> nat \<times> rat" where
  "least_from b [] = b"
| "least_from b (x # xs) = least_from (if snd x < snd b then x else b) xs"

fun idxmin :: "(nat \<times> rat) list \<Rightarrow> py_error + nat" where
  "idxmin [] = Inl (ValueError ''attempt to get argmin of an empty sequence'')"
| "idxmin (x # xs) = Inr (fst (least_from x xs))"

text \<open>
  The body of the \<open>try\<close>. \<open>to_time\<close> stands for
  \<open>pd.to_datetime(_, format="%H:%M", errors='coerce').dt.time\<close> on one value: the hour and
  minute, or nothing where the value does not parse. \<open>clock\<close> is what \<open>datetime.now()\<close>
  reads. The result comes with the caller's table as the body leaves it: line 58 assigns
  \<open>parsed_time\<close> in the caller's object, and from \<open>dropna\<close> on the name \<open>df\<close> is a new
  table, kept here as the labelled columns \<open>kept\<close>, \<open>datetime_obj\<close> and \<open>time_diff\<close>;
  its other columns are those of the caller's table at the kept labels. With \<open>parsed_time\<close>
  it has a column of objects, so the row that \<open>df.loc[label]\<close> gives holds every cell as it is.
\<close>

definition nearest_body ::
  "(cell \<Rightarrow> (nat \<times> nat) option) \<Rightarrow> datetime \<Rightarrow> dataframe \<Rightarrow> (py_error + cell \<times> cell) \<times> dataframe" where
  "nearest_body to_time clock df =
     (let now = replace_second_microsecond clock in
      case getitem df ''time'' of
        Inl e \<Rightarrow> (Inl e, df)
      | Inr ts \<Rightarrow>
          let parsed = map to_time ts;
              df1 = setitem df ''parsed_time'' (map time_cell parsed);
              kept = dropna (enumerate 0 parsed);
              datetime_obj = map (\<lambda>(i, t). (i, combine (dt_date now) t)) kept;
              time_diff = map (\<lambda>(i, d). (i, \<bar>total_seconds now d\<bar>)) datetime_obj
          in (py_bind (idxmin time_diff) (\<lambda>label.
              py_bind (loc df1 label ''time'') (\<lambda>t.
              py_bind (loc df1 label ''brightness'') (\<lambda>b.
              Inr (t, b)))), df1))"

text \<open>
  The function: the pair it returns (\<open>None\<close> is Python's \<open>None\<close>), and the caller's table
  after the call.
\<close>

definition get_nearest_time_brightness ::
  "(cell \<Rightarrow> (nat \<times> nat) option) \<Rightarrow> datetime \<Rightarrow> dataframe
     \<Rightarrow> (py_error + cell option \<times> cell option) \<times> dataframe" where
  "get_nearest_time_brightness to_time clock df =
     (case nearest_body to_time clock df of
        (r, df') \<Rightarrow>
          (try_except (py_bind r (\<lambda>(t, b). Inr (Some t, Some b))) (\<lambda>e. Inr (None, None)), df'))"

text \<open>
  The distance of the specification, for one value of the \<open>time\<close> column that parses as the
  hour \<open>h\<close> and minute \<open>m\<close>: the absolute difference in seconds between now, cut to the
  minute, and \<open>h:m\<close> of the same day, that is \<open>60 * |(H * 60 + M) - (h * 60 + m)|\<close> at the clock
  reading \<open>H:M\<close>. It is written out here, not through the operations of the function.
\<close>

definition seconds_from_now :: "(cell \<Rightarrow> (nat \<times> nat) option) \<Rightarrow> datetime \<Rightarrow> cell \<Rightarrow> rat" where
  "seconds_from_now to_time clock c =
     (case to_time c of
        None \<Rightarrow> 0
      | Some (h, m) \<Rightarrow>
          of_int (60 * \<bar>(int (dt_hour clock) * 60 + int (dt_minute clock)) - (int h * 60 + int m)\<bar>))"

subsection \<open>The \<open>%H:%M\<close> format on ASCII text\<close>

definition digit_val :: "char \<Rightarrow> nat option" where
  "digit_val c = (let n = of_char c :: nat in if 48 \<le> n \<and> n \<le> 57 then Some (n - 48) else None)"

text \<open>\<open>%H\<close> is \<open>2[0-3]|[0-1]\d|\d\<close> and \<open>%M\<close> is \<open>[0-5]\d|\d\<close>; the whole text must match.\<close>

definition match_hour :: "string \<Rightarrow> nat option" where
  "match_hour s =
     (case map digit_val s of
        [Some a] \<Rightarrow> Some a
      | [Some a, Some b] \<Rightarrow> (if a = 2 \<and> b \<le> 3 \<or> a \<le> 1 then Some (10 * a + b) else None)
      | _ \<Rightarrow> None)"

definition match_minute :: "string \<Rightarrow> nat option" where
  "match_minute s =
     (case map digit_val s of
        [Some a] \<Rightarrow> Some a
      | [Some a, Some b] \<Rightarrow> (if a \<le> 5 then Some (10 * a + b) else None)
      | _ \<Rightarrow> None)"

definition strptime_HM :: "string \<Rightarrow> (nat \<times> nat) option" where
  "strptime_HM s =
     (let h = takeWhile (\<lambda>c. c \<noteq> CHR '':'') s; r = dropWhile (\<lambda>c. c \<noteq> CHR '':'') s
      in case r of
           [] \<Rightarrow> None
         | _ # m \<Rightarrow>
             (case (match_hour h, match_minute m) of
                (Some hh, Some mm) \<Rightarrow> Some (hh, mm)
              | _ \<Rightarrow> None))"

definition to_time_HM :: "cell \<Rightarrow> (nat \<times> nat) option" where
  "to_time_HM c = (case c of Str s \<Rightarrow> strptime_HM s | _ \<Rightarrow> None)"

section \<open>\<open>call_groq_scheduler\<close>\<close>

subsection \<open>The decoded response\<close>

datatype json =
    JNull
  | JBool bool
  | JNum pynum
  | JStr string
  | JArr "json list"
  | JObj "(string \<times> json) list"

fun type_name :: "json \<Rightarrow> string" where
  "type_name JNull = ''NoneType''"
| "type_name (JBool _) = ''bool''"
| "type_name (JNum (PInt _)) = ''int''"
| "type_name (JNum (PFloat _)) = ''float''"
| "type_name (JStr _) = ''str''"
| "type_name (JArr _) = ''list''"
| "type_name (JObj _) = ''dict''"

text \<open>\<open>key in v\<close> for a text key.\<close>

fun py_in :: "string \<Rightarrow> json \<Rightarrow> py_error + bool" where
  "py_in k (JObj kvs) = Inr (k \<in> set (map fst kvs))"
| "py_in k (JArr xs) = Inr (JStr k \<in> set xs)"
| "py_in k (JStr s) = Inr (sublist k s)"
| "py_in k v = Inl (TypeError (''argument of type '' @ quoted (type_name v) @ '' is not iterable''))"

text \<open>\<open>v[key]\<close> for a text key.\<close>

fun subscript :: "json \<Rightarrow> string \<Rightarrow> py_error + json" where
  "subscript (JObj kvs) k = (case map_of kvs k of None \<Rightarrow> Inl (KeyError (quoted k)) | Some x \<Rightarrow> Inr x)"
| "subscript (JArr xs) k = Inl (TypeError ''list indices must be integers or slices, not str'')"
| "subscript (JStr s) k = Inl (TypeError (''string indices must be integers, not '' @ quoted ''str''))"
| "subscript v k = Inl (TypeError (quoted (type_name v) @ '' object is not subscriptable''))"

text \<open>\<open>v[0]\<close>\<close>

fun subscript0 :: "json \<Rightarrow> py_error + json" where
  "subscript0 (JArr []) = Inl (IndexError ''list index out of range'')"
| "subscript0 (JArr (x # xs)) = Inr x"
| "subscript0 (JStr []) = Inl (IndexError ''string index out of range'')"
| "subscript0 (JStr (c # s)) = Inr (JStr [c])"
| "subscript0 (JObj kvs) = Inl (KeyError ''0'')"
| "subscript0 v = Inl (TypeError (quoted (type_name v) @ '' object is not subscriptable''))"

subsection \<open>The request\<close>

record chat_message =
  role :: string
  content :: string

record chat_request =
  url :: string
  headers :: "(string \<times> string) list"
  model :: string
  messages :: "chat_message list"
  temperature :: pyfloat

text \<open>
  \<open>requests.post\<close> is the network: a function from the request to an exception that it
  raises, or to a response. Of a response the function reads \<open>response.json()\<close> only,
  which raises or gives the decoded body.
\<close>

type_synonym response = "py_error + json"

type_synonym network = "chat_request \<Rightarrow> py_error + response"

subsection \<open>The prompt\<close>

text \<open>
  \<open>str\<close> of a cell, as an f-string formats it. The shortest text of a float that reads
  back as the same float is left to \<open>repr_float\<close>.
\<close>

fun py_str :: "(pyfloat \<Rightarrow> string) \<Rightarrow> cell \<Rightarrow> string" where
  "py_str repr_float (Str s) = s"
| "py_str repr_float (Num (PInt i)) = int_str i"
| "py_str repr_float (Num (PFloat f)) = repr_float f"
| "py_str repr_float (Tod h m) = two_digits h @ '':'' @ two_digits m @ '':00''"
| "py_str repr_float NaT = ''NaT''"

text \<open>
  \<open>repr\<close> of the floats that the examples of this file print: the infinities, NaN, the
  negative zero and the whole numbers below \<open>10^16\<close>. No other float is formatted in an example.
\<close>

fun repr_whole :: "pyfloat \<Rightarrow> string" where
  "repr_whole (Fin x) = int_str \<lfloor>x\<rfloor> @ ''.0''"
| "repr_whole NZero = ''-0.0''"
| "repr_whole PInf = ''inf''"
| "repr_whole NInf = ''-inf''"
| "repr_whole NaN = ''nan''"

definition newline :: string where
  "newline = [CHR 0x0A]"

text \<open>\<open>sep.join(xs)\<close>\<close>

fun join :: "string \<Rightarrow> string list \<Rightarrow> string" where
  "join sep [] = []"
| "join sep [x] = x"
| "join sep (x # y # ys) = x @ sep @ join sep (y # ys)"

definition prompt_line :: "(pyfloat \<Rightarrow> string) \<Rightarrow> cell \<Rightarrow> cell \<Rightarrow> cell \<Rightarrow> string" where
  "prompt_line repr_float t l b =
     ''Time: '' @ py_str repr_float t @ '', Daylight: '' @ py_str repr_float l
       @ '' lux, Brightness: '' @ py_str repr_float b @ ''%''"

text \<open>The list comprehension over \<open>dataframe.iterrows()\<close>: one row after the other.\<close>

definition prompts_of :: "(pyfloat \<Rightarrow> string) \<Rightarrow> dataframe \<Rightarrow> py_error + string list" where
  "prompts_of repr_float df =
     series_apply (\<lambda>i.
       py_bind (row_item df i ''time'') (\<lambda>t.
       py_bind (row_item df i ''lux'') (\<lambda>l.
       py_bind (row_item df i ''brightness'') (\<lambda>b.
       Inr (prompt_line repr_float t l b))))) [0..<n_rows df]"

definition preamble :: string where
  "preamble =
     ''You are an intelligent office lighting assistant. Based on the data below, ''
     @ ''generate a natural-language schedule describing when and why lights change brightness:''
     @ newline @ newline"

definition format_hint :: string where
  "format_hint = newline @ newline @ ''Format:'' @ newline @ ''Hour: Brightness % - Reason''"

definition groq_request :: "string \<Rightarrow> string \<Rightarrow> chat_request" where
  "groq_request groq_api_key full_prompt =
     \<lparr>url = ''https://api.groq.com/openai/v1/chat/completions'',
      headers = [(''Authorization'', ''Bearer '' @ groq_api_key),
                 (''Content-Type'', ''application/json'')],
      model = ''llama3-8b-8192'',
      messages = [\<lparr>role = ''user'', content = full_prompt\<rparr>],
      temperature = float_lit (3 / 10)\<rparr>"

subsection \<open>The function\<close>

text \<open>The two messages, their first character in UTF-8.\<close>

definition no_valid_response :: string where
  "no_valid_response =
     [CHR 0xE2, CHR 0x9A, CHR 0xA0, CHR 0xEF, CHR 0xB8, CHR 0x8F]
     @ '' GROQ did not return a valid response.''"

definition request_failed :: string where
  "request_failed = [CHR 0xE2, CHR 0x9D, CHR 0x8C] @ '' GROQ request failed: ''"

text \<open>Lines 49 to 53: the \<open>try\<close> around the decoding of the response.\<close>

definition read_response :: "response \<Rightarrow> py_error + json" where
  "read_response response =
     try_except
       (py_bind response (\<lambda>output.
        py_bind (py_in ''choices'' output) (\<lambda>has_choices.
        if has_choices then
          py_bind (subscript output ''choices'') (\<lambda>a.
          py_bind (subscript0 a) (\<lambda>b.
          py_bind (subscript b ''message'') (\<lambda>c.
          subscript c ''content'')))
        else Inr (JStr no_valid_response))))
       (\<lambda>e. Inr (JStr (request_failed @ exc_str e)))"

text \<open>
  The whole function: the prompt (lines 26 to 35), the request (lines 37 to 48), both
  before the \<open>try\<close>, then the \<open>try\<close>. What it returns is a Python value: \<open>JStr\<close> is a string.
\<close>

definition call_groq_scheduler ::
  "(pyfloat \<Rightarrow> string) \<Rightarrow> network \<Rightarrow> dataframe \<Rightarrow> string \<Rightarrow> py_error + json" where
  "call_groq_scheduler repr_float post df groq_api_key =
     py_bind (prompts_of repr_float df) (\<lambda>prompts.
     let full_prompt = preamble @ join newline prompts @ format_hint in
     py_bind (post (groq_request groq_api_key full_prompt)) (\<lambda>response.
     read_response response))"

section \<open>The formulas of the specification\<close>

text \<open>
  The contract of the energy and cost calculator is \<open>round(e, 4)\<close> of the expressions
  \<open>brightness_percent/100 * watt * hours / 1000\<close> and \<open>kwh * rate\<close>. The expressions are read
  with Python's precedence (left to right) and arithmetic.
\<close>

definition energy_unrounded :: "pynum \<Rightarrow> pynum \<Rightarrow> pynum \<Rightarrow> py_error + pynum" where
  "energy_unrounded brightness_percent hours watt =
     py_bind (py_truediv brightness_percent (PInt 100)) (\<lambda>q.
     py_bind (py_mul q watt) (\<lambda>w.
     py_bind (py_mul w hours) (\<lambda>wh.
     py_truediv wh (PInt 1000))))"

definition cost_unrounded :: "pynum \<Rightarrow> pynum \<Rightarrow> py_error + pynum" where
  "cost_unrounded kwh rate = py_mul kwh rate"

text \<open>
  Rounding to four decimal places, said without the function that computes it: \<open>d\<close> is a
  whole number of ten-thousandths, no further than half a ten-thousandth from \<open>x\<close>, and where
  \<open>x\<close> lies exactly halfway it is the even one.
\<close>

definition rounds_to_4_places :: "rat \<Rightarrow> rat \<Rightarrow> bool" where
  "rounds_to_4_places x d =
     (let n = \<lfloor>d * 10000\<rfloor>
      in of_int n = d * 10000
         \<and> (\<bar>x - d\<bar> < 1 / 20000 \<or> \<bar>x - d\<bar> = 1 / 20000 \<and> even n))"

text \<open>
  The enriched values of the specification, by the bucket of \<open>lux\<close>: brightness, then
  energy in kWh, then cost, each the double that the decimal denotes.
\<close>

definition enriched_values :: "pynum \<Rightarrow> pynum \<times> pynum \<times> pynum" where
  "enriched_values lux =
     (if py_gt lux (PInt 500)
        then (PInt 10, PFloat (float_lit (4 / 1000)), PFloat (float_lit (6 / 10000)))
      else if py_gt lux (PInt 300)
        then (PInt 40, PFloat (float_lit (16 / 1000)), PFloat (float_lit (24 / 10000)))
      else (PInt 80, PFloat (float_lit (32 / 1000)), PFloat (float_lit (48 / 10000))))"

section \<open>Example tables\<close>

text \<open>
  The example of the specification: the rows \<open>09:00\<close> and \<open>13:00\<close>, enriched, read at 09:05;
  beside it a table whose times do not parse and tables that lack a column.
\<close>

definition schedule_example :: dataframe where
  "schedule_example =
     \<lparr>n_rows = 2,
      cols = [(''time'', [Str ''09:00'', Str ''13:00'']),
              (''lux'', [Num (PInt 200), Num (PInt 600)]),
              (''brightness'', [Num (PInt 80), Num (PInt 10)]),
              (''energy_kwh'', [Num (PFloat (float_lit (32 / 1000))), Num (PFloat (float_lit (4 / 1000)))]),
              (''cost'', [Num (PFloat (float_lit (48 / 10000))), Num (PFloat (float_lit (6 / 10000)))])]\<rparr>"

definition clock_example :: datetime where
  "clock_example = \<lparr>dt_date = 739923, dt_hour = 9, dt_minute = 5, dt_second = 42, dt_microsecond = 170000\<rparr>"

text \<open>Three readings of a day, and clock readings at 12:50 and at 11:00.\<close>

definition day_example :: dataframe where
  "day_example =
     \<lparr>n_rows = 3,
      cols = [(''time'', [Str ''09:00'', Str ''13:00'', Str ''18:00'']),
              (''lux'', [Num (PInt 200), Num (PInt 600), Num (PInt 350)]),
              (''brightness'', [Num (PInt 80), Num (PInt 10), Num (PInt 40)])]\<rparr>"

definition clock_1250 :: datetime where
  "clock_1250 = \<lparr>dt_date = 739923, dt_hour = 12, dt_minute = 50, dt_second = 7, dt_microsecond = 1\<rparr>"

definition clock_1100 :: datetime where
  "clock_1100 = \<lparr>dt_date = 739923, dt_hour = 11, dt_minute = 0, dt_second = 59, dt_microsecond = 999999\<rparr>"

text \<open>A table of numbers only: the time as a number, and a column of floats.\<close>

definition numeric_example :: dataframe where
  "numeric_example =
     \<lparr>n_rows = 2,
      cols = [(''time'', [Num (PInt 900), Num (PInt 1300)]),
              (''lux'', [Num (PInt 200), Num (PInt 600)]),
              (''brightness'', [Num (PInt 80), Num (PInt 10)]),
              (''energy_kwh'', [Num (PFloat (float_lit (32 / 1000))), Num (PFloat (float_lit (4 / 1000)))])]\<rparr>"

definition unparsable_example :: dataframe where
  "unparsable_example =
     \<lparr>n_rows = 2,
      cols = [(''time'', [Str ''noon'', Str ''25:00'']),
              (''lux'', [Num (PInt 200), Num (PInt 600)]),
              (''brightness'', [Num (PInt 80), Num (PInt 10)])]\<rparr>"

definition no_time_example :: dataframe where
  "no_time_example = \<lparr>n_rows = 1, cols = [(''lux'', [Num (PInt 200)])]\<rparr>"

definition no_brightness_example :: dataframe where
  "no_brightness_example =
     \<lparr>n_rows = 2,
      cols = [(''time'', [Str ''09:00'', Str ''13:00'']),
              (''lux'', [Num (PInt 200), Num (PInt 600)])]\<rparr>"

definition same_lux_example :: dataframe where
  "same_lux_example =
     \<lparr>n_rows = 2,
      cols = [(''time'', [Str ''10:30'', Str ''16:45'']),
              (''lux'', [Num (PInt 200), Num (PInt 600)])]\<rparr>"

definition twice_example :: dataframe where
  "twice_example =
     \<lparr>n_rows = 2,
      cols = [(''time'', [Str ''09:00'', Str ''13:00'']),
              (''lux'', [Num (PInt 200), Num (PInt 200)])]\<rparr>"

section \<open>Example networks\<close>

text \<open>A network that answers with the prompt it was sent, in the shape of a chat completion.\<close>

definition echo_network :: network where
  "echo_network request =
     Inr (Inr (JObj [(''choices'',
       JArr [JObj [(''message'', JObj [(''content'', JStr (concat (map content (messages request))))])]])]))"

text \<open>A network that is down: \<open>requests.post\<close> raises.\<close>

definition down_network :: network where
  "down_network request = Inl (RequestException ''Connection refused'')"

text \<open>A completion whose content is \<open>null\<close>.\<close>

definition null_content_network :: network where
  "null_content_network request =
     Inr (Inr (JObj [(''choices'', JArr [JObj [(''message'', JObj [(''content'', JNull)])]])]))"

section \<open>Arithmetic of the doubles\<close>

lemma pow2_pos: "0 < pow2 e"
  by (simp add: pow2_def)

lemma pow2_Suc: "pow2 (e + 1) = 2 * pow2 e"
proof (cases "0 \<le> e")
  case True
  then show ?thesis by (simp add: pow2_def nat_add_distrib)
next
  case False
  then have "nat (- e) = Suc (nat (- (e + 1)))" by simp
  with False show ?thesis by (auto simp add: pow2_def)
qed

lemma bitlen_eqI:
  assumes "2 ^ k \<le> n" "n < 2 ^ Suc k"
  shows "bitlen n = int k + 1"
proof -
  have "bitlen n \<le> int k + 1"
    using assms(2) by (simp add: bitlen_le_iff_power nat_add_distrib)
  moreover have "\<not> bitlen n \<le> int k"
    using assms(1) by (simp add: bitlen_le_iff_power)
  ultimately show ?thesis by linarith
qed

lemma ilog2_eqI:
  assumes "pow2 e \<le> \<bar>x\<bar>" "\<bar>x\<bar> < pow2 (e + 1)"
  shows "ilog2 x = e"
proof (cases "0 \<le> e")
  case True
  define a where "a = \<bar>x\<bar>"
  define k where "k = nat e"
  have e: "e = int k" using True by (simp add: k_def)
  have lo: "(2::rat) ^ k \<le> a" and hi: "a < 2 ^ Suc k"
    using assms True by (simp_all add: a_def k_def pow2_def nat_add_distrib)
  have "1 \<le> a" using lo one_le_power[of "2::rat" k] by linarith
  have "(of_int (2 ^ k) :: rat) \<le> a" using lo by simp
  then have l2: "2 ^ k \<le> \<lfloor>a\<rfloor>" by (simp only: le_floor_iff)
  have "a < of_int (2 ^ Suc k)" using hi by simp
  then have h2: "\<lfloor>a\<rfloor> < 2 ^ Suc k" by (simp only: floor_less_iff)
  have "bitlen \<lfloor>a\<rfloor> = int k + 1" by (rule bitlen_eqI[OF l2 h2])
  with \<open>1 \<le> a\<close> show ?thesis by (simp add: ilog2_def a_def[symmetric] e Let_def)
next
  case False
  define a where "a = \<bar>x\<bar>"
  define k where "k = nat (- e - 1)"
  have e: "e = - int k - 1" using False by (simp add: k_def)
  have apos: "0 < a" using assms(1) pow2_pos[of e] by (simp add: a_def)
  have lo: "1 / 2 ^ Suc k \<le> a"
    using assms(1) False by (simp add: a_def pow2_def e nat_add_distrib)
  have hi: "a < 1 / 2 ^ k"
    using assms(2) by (cases "k = 0") (simp_all add: a_def pow2_def e)
  have "(1::rat) / 2 ^ k \<le> 1" by (simp add: field_simps)
  with hi have "a < 1" by linarith
  have y_hi: "1 / a \<le> 2 ^ Suc k"
    using lo apos by (simp add: field_simps)
  have y_lo: "2 ^ k < 1 / a"
    using hi apos by (simp add: field_simps)
  have "1 / a \<le> of_int (2 ^ Suc k)" using y_hi by simp
  then have c_hi: "\<lceil>1 / a\<rceil> \<le> 2 ^ Suc k" by (simp only: ceiling_le_iff)
  have "of_int (2 ^ k) < 1 / a" using y_lo by simp
  then have c_lo: "2 ^ k < \<lceil>1 / a\<rceil>" by (simp only: less_ceiling_iff)
  have "bitlen (\<lceil>1 / a\<rceil> - 1) = int k + 1"
    by (rule bitlen_eqI) (use c_lo c_hi in linarith)+
  with \<open>a < 1\<close> show ?thesis by (simp add: ilog2_def a_def[symmetric] e Let_def)
qed

lemma round_half_even_bounds:
  "of_int (round_half_even x) \<le> x + 1 / 2" "x - 1 / 2 \<le> of_int (round_half_even x)"
  unfolding round_half_even_def Let_def by (auto; linarith)+

lemma pow2_powi: "pow2 e = 2 powi e"
  by (simp add: pow2_def power_int_def field_simps)

lemma pow2_mono: "e \<le> e' \<Longrightarrow> pow2 e \<le> pow2 e'"
  by (simp add: pow2_powi power_int_increasing)

lemma round_double_eqI:
  assumes lo: "pow2 e \<le> \<bar>x\<bar>" and hi: "\<bar>x\<bar> < pow2 (e + 1)"
    and e: "- 1022 \<le> e" "e \<le> 1022"
    and v: "of_int (round_half_even (x / pow2 (e - 52))) * pow2 (e - 52) = v"
  shows "round_double x = Fin v"
proof -
  define q where "q = pow2 (e - 52)"
  have qpos: "0 < q" by (simp add: q_def pow2_pos)
  have x0: "x \<noteq> 0" using lo pow2_pos[of e] by auto
  have il: "ilog2 x = e" by (rule ilog2_eqI[OF lo hi])
  have "\<bar>of_int (round_half_even (x / q)) - x / q\<bar> \<le> 1 / 2"
    using round_half_even_bounds[of "x / q"] by linarith
  then have "\<bar>of_int (round_half_even (x / q)) - x / q\<bar> * \<bar>q\<bar> \<le> 1 / 2 * q"
    using qpos by (simp only: mult_le_cancel_right_pos abs_of_pos)
  moreover have "of_int (round_half_even (x / q)) * q - x = (of_int (round_half_even (x / q)) - x / q) * q"
    using qpos by (simp add: field_simps)
  ultimately have "\<bar>of_int (round_half_even (x / q)) * q - x\<bar> \<le> q / 2"
    by (simp only: abs_mult)
  then have "\<bar>v - x\<bar> \<le> q / 2" using v by (simp only: q_def)
  then have "\<bar>v\<bar> \<le> \<bar>x\<bar> + q / 2" by linarith
  moreover have "q \<le> pow2 1023" unfolding q_def by (rule pow2_mono) (use e in simp)
  moreover have "pow2 (e + 1) \<le> pow2 1023" by (rule pow2_mono) (use e in simp)
  moreover have "pow2 1024 = 2 * pow2 1023" using pow2_Suc[of 1023] by simp
  moreover have "0 < pow2 1023" by (rule pow2_pos)
  ultimately have "\<bar>v\<bar> < pow2 1024" using hi by linarith
  then show ?thesis
    using x0 e v by (simp add: round_double_def il Let_def q_def del: of_int_mult)
qed

lemma floor_rat_numeral:
  "\<lfloor>numeral a / numeral b :: rat\<rfloor> = numeral a div numeral b"
  "\<lfloor>- (numeral a / numeral b) :: rat\<rfloor> = - numeral a div numeral b"
  using floor_divide_of_int_eq[of "numeral a" "numeral b", where ?'a = rat]
    floor_divide_of_int_eq[of "- numeral a" "numeral b", where ?'a = rat]
  by simp_all

lemma ceiling_rat_numeral:
  "\<lceil>numeral a / numeral b :: rat\<rceil> = - (- numeral a div numeral b)"
  using ceiling_divide_eq_div[of "numeral a" "numeral b", where ?'a = rat] by simp

lemma ilog2_bounds:
  assumes "x \<noteq> 0"
  shows "pow2 (ilog2 x) \<le> \<bar>x\<bar>" and "\<bar>x\<bar> < pow2 (ilog2 x + 1)"
proof -
  define a where "a = \<bar>x\<bar>"
  have apos: "0 < a" using assms by (simp add: a_def)
  have "pow2 (ilog2 x) \<le> a \<and> a < pow2 (ilog2 x + 1)"
  proof (cases "1 \<le> a")
    case True
    define n where "n = \<lfloor>a\<rfloor>"
    have n1: "1 \<le> n" using True by (simp add: n_def le_floor_iff)
    then have n0: "0 < n" by simp
    have il: "ilog2 x = bitlen n - 1" using True by (simp add: ilog2_def a_def[symmetric] n_def Let_def)
    have b1: "1 \<le> bitlen n" using n0 bitlen_eq_zero_iff[of n] bitlen_nonneg[of n] by linarith
    from bitlen_bounds[OF n0] have lo: "2 ^ nat (bitlen n - 1) \<le> n" and hi: "n < 2 ^ nat (bitlen n)"
      by simp_all
    have "(of_int (2 ^ nat (bitlen n - 1)) :: rat) \<le> a"
      using lo unfolding n_def by (simp only: le_floor_iff)
    then have l: "2 ^ nat (bitlen n - 1) \<le> a" by simp
    have "a < (of_int (2 ^ nat (bitlen n)) :: rat)"
      using hi unfolding n_def by (simp only: floor_less_iff)
    then have h: "a < 2 ^ nat (bitlen n)" by simp
    show ?thesis using l h b1 by (simp add: il pow2_def)
  next
    case False
    define m where "m = \<lceil>1 / a\<rceil> - 1"
    have y1: "1 < 1 / a" using False apos by (simp add: field_simps)
    then have "1 < \<lceil>1 / a\<rceil>" by (simp add: less_ceiling_iff)
    then have m0: "0 < m" by (simp add: m_def)
    have il: "ilog2 x = - bitlen m" using False by (simp add: ilog2_def a_def[symmetric] m_def Let_def)
    have b1: "1 \<le> bitlen m" using m0 bitlen_eq_zero_iff[of m] bitlen_nonneg[of m] by linarith
    define k where "k = nat (bitlen m - 1)"
    have bk: "bitlen m = int k + 1" using b1 by (simp add: k_def)
    have sk: "nat (bitlen m) = Suc k" using b1 unfolding k_def by linarith
    from bitlen_bounds[OF m0] have lo: "2 ^ k \<le> m" and hi: "m < 2 ^ Suc k"
      unfolding sk k_def[symmetric] by blast+
    have "2 ^ k < \<lceil>1 / a\<rceil>" using lo by (simp add: m_def)
    then have "(of_int (2 ^ k) :: rat) < 1 / a" by (simp only: less_ceiling_iff)
    then have ylo: "2 ^ k < 1 / a" by simp
    have "\<lceil>1 / a\<rceil> \<le> 2 ^ Suc k" using hi by (simp add: m_def)
    then have "1 / a \<le> (of_int (2 ^ Suc k) :: rat)" by (simp only: ceiling_le_iff)
    then have yhi: "1 / a \<le> 2 ^ Suc k" by simp
    have l: "1 / 2 ^ Suc k \<le> a" using yhi apos by (simp add: field_simps)
    have h: "a < 1 / 2 ^ k" using ylo apos by (simp add: field_simps)
    have n1: "nat (1 + int k) = Suc k" by simp
    show ?thesis using l h by (cases "k = 0") (simp_all add: il bk pow2_def n1)
  qed
  then show "pow2 (ilog2 x) \<le> \<bar>x\<bar>" and "\<bar>x\<bar> < pow2 (ilog2 x + 1)" by (simp_all add: a_def)
qed

lemma round_double_normal:
  assumes "x \<noteq> 0" and "- 1022 \<le> ilog2 x" and "ilog2 x \<le> 1022"
  shows "round_double x
           = Fin (of_int (round_half_even (x / pow2 (ilog2 x - 52))) * pow2 (ilog2 x - 52))"
  by (rule round_double_eqI[OF ilog2_bounds[OF assms(1)] assms(2,3) refl])

lemma round_double_zero: "round_double 0 = Fin 0"
  by (simp add: round_double_def)

lemmas rd_auto = round_double_zero round_double_normal ilog2_def compute_bitlen pow2_def round_half_even_def Let_def
  floor_rat_numeral ceiling_rat_numeral

text \<open>Evaluation of the arithmetic on numerals.\<close>

lemmas num_eval = py_bind_def int_to_float_def round_signed_def signed_zero_def signed_inf_def
  fmul_def fdiv_def float_lit_def rd_auto

subsection \<open>Rounding to four places\<close>

lemma round_half_even_nearest:
  "\<bar>x - of_int (round_half_even x)\<bar> < 1 / 2
   \<or> \<bar>x - of_int (round_half_even x)\<bar> = 1 / 2 \<and> even (round_half_even x)"
proof -
  define f where "f = \<lfloor>x\<rfloor>"
  define d where "d = x - of_int f"
  have d0: "0 \<le> d" and d1: "d < 1" unfolding d_def f_def by linarith+
  consider "d < 1 / 2" | "1 / 2 < d" | "d = 1 / 2" by linarith
  then show ?thesis
  proof cases
    case 1
    then have "round_half_even x = f" by (simp add: round_half_even_def Let_def f_def d_def)
    with 1 d0 show ?thesis by (simp add: d_def)
  next
    case 2
    then have "round_half_even x = f + 1" by (simp add: round_half_even_def Let_def f_def d_def)
    with 2 d1 show ?thesis by (simp add: d_def)
  next
    case 3
    show ?thesis
    proof (cases "even f")
      case True
      with 3 have "round_half_even x = f" by (simp add: round_half_even_def Let_def f_def d_def)
      with 3 True show ?thesis by (simp add: d_def)
    next
      case False
      with 3 have "round_half_even x = f + 1" by (simp add: round_half_even_def Let_def f_def d_def)
      with 3 False show ?thesis by (simp add: d_def)
    qed
  qed
qed

lemma rounds_to_4_places_round_half_even:
  "rounds_to_4_places x (of_int (round_half_even (x * 10000)) / 10000)"
proof -
  define n where "n = round_half_even (x * 10000)"
  have dist: "\<bar>x - of_int n / 10000\<bar> = \<bar>x * 10000 - of_int n\<bar> / 10000"
  proof -
    have "x - of_int n / 10000 = (x * 10000 - of_int n) / 10000" by (simp add: field_simps)
    then show ?thesis by (simp only: abs_divide)
  qed
  from round_half_even_nearest[of "x * 10000"]
  have "\<bar>x * 10000 - of_int n\<bar> < 1 / 2 \<or> \<bar>x * 10000 - of_int n\<bar> = 1 / 2 \<and> even n"
    by (simp add: n_def)
  then have "\<bar>x - of_int n / 10000\<bar> < 1 / 20000 \<or> \<bar>x - of_int n / 10000\<bar> = 1 / 20000 \<and> even n"
    unfolding dist by (auto simp add: field_simps)
  then show ?thesis
    by (simp add: rounds_to_4_places_def Let_def n_def[symmetric])
qed

text \<open>The relation fixes the rounded decimal.\<close>

lemma rounds_to_4_places_unique:
  assumes "rounds_to_4_places x d" and "rounds_to_4_places x d'"
  shows "d = d'"
proof -
  define n where "n = \<lfloor>d * 10000\<rfloor>"
  define n' where "n' = \<lfloor>d' * 10000\<rfloor>"
  from assms(1) have n: "of_int n = d * 10000"
    and dn: "\<bar>x - d\<bar> < 1 / 20000 \<or> \<bar>x - d\<bar> = 1 / 20000 \<and> even n"
    by (simp_all add: rounds_to_4_places_def Let_def n_def)
  from assms(2) have n': "of_int n' = d' * 10000"
    and dn': "\<bar>x - d'\<bar> < 1 / 20000 \<or> \<bar>x - d'\<bar> = 1 / 20000 \<and> even n'"
    by (simp_all add: rounds_to_4_places_def Let_def n'_def)
  have d: "d = of_int n / 10000" and d': "d' = of_int n' / 10000" using n n' by simp_all
  have "n = n'"
  proof (rule ccontr)
    assume ne: "n \<noteq> n'"
    then have "1 \<le> \<bar>n - n'\<bar>" by linarith
    then have "(1::rat) \<le> \<bar>of_int n - of_int n'\<bar>"
      by (metis of_int_1 of_int_abs of_int_diff of_int_le_iff)
    then have far: "1 / 10000 \<le> \<bar>d - d'\<bar>" unfolding d d' by (simp add: field_simps abs_if split: if_splits)
    have tri: "\<bar>d - d'\<bar> \<le> \<bar>x - d\<bar> + \<bar>x - d'\<bar>" by linarith
    from dn dn' far tri have e: "\<bar>x - d\<bar> = 1 / 20000" "\<bar>x - d'\<bar> = 1 / 20000" and ev: "even n" "even n'"
      by (auto; linarith)+
    from e far tri have "\<bar>d - d'\<bar> = 1 / 10000" by linarith
    then have "\<bar>of_int n - of_int n'\<bar> = (1::rat)" unfolding d d' by (simp add: field_simps abs_if split: if_splits)
    then have "\<bar>n - n'\<bar> = 1"
      by (metis of_int_1 of_int_abs of_int_diff of_int_eq_iff)
    with ev show False by presburger
  qed
  then show ?thesis by (simp add: d d')
qed

lemma py_round4_rounds:
  "\<exists>d. rounds_to_4_places u d \<and> py_round4 (PFloat (Fin u)) = PFloat (round_signed (u < 0) d)"
  using rounds_to_4_places_round_half_even[of u] by (intro exI[of _ "of_int (round_half_even (u * 10000)) / 10000"]) simp

section \<open>The brightness, energy and cost functions\<close>

lemma fle_not_fgt: "fle f (Fin a) \<Longrightarrow> a \<le> b \<Longrightarrow> \<not> fgt f (Fin b)"
  by (cases f) auto

text \<open>
  C2. For every number \<open>lux\<close>, \<open>evaluate_brightness\<close> returns one of 10, 40 and 80, with no
  exception: 10 where \<open>lux > 500\<close>, 40 where \<open>300 < lux \<le> 500\<close>, 80 where \<open>lux \<le> 300\<close>,
  and so 80 on every negative \<open>int\<close> and finite \<open>float\<close>.
\<close>

theorem evaluate_brightness_thresholds:
  "evaluate_brightness lux \<in> {PInt 10, PInt 40, PInt 80}
   \<and> (py_gt lux (PInt 500) \<longrightarrow> evaluate_brightness lux = PInt 10)
   \<and> (py_gt lux (PInt 300) \<and> py_le lux (PInt 500) \<longrightarrow> evaluate_brightness lux = PInt 40)
   \<and> (py_le lux (PInt 300) \<longrightarrow> evaluate_brightness lux = PInt 80)
   \<and> (py_le lux (PInt 0) \<longrightarrow> evaluate_brightness lux = PInt 80)"
proof -
  have mid: "py_gt lux (PInt 300) \<Longrightarrow> py_le lux (PInt 500) \<Longrightarrow> \<not> py_gt lux (PInt 500)"
    unfolding py_gt_def py_le_def using fle_not_fgt[of "exact lux" 500 500] by simp
  have low: "py_le lux (PInt 300) \<Longrightarrow> \<not> py_gt lux (PInt 500) \<and> \<not> py_gt lux (PInt 300)"
    unfolding py_gt_def py_le_def
    using fle_not_fgt[of "exact lux" 300 500] fle_not_fgt[of "exact lux" 300 300] by simp
  have neg: "py_le lux (PInt 0) \<Longrightarrow> \<not> py_gt lux (PInt 500) \<and> \<not> py_gt lux (PInt 300)"
    unfolding py_gt_def py_le_def
    using fle_not_fgt[of "exact lux" 0 500] fle_not_fgt[of "exact lux" 0 300] by simp
  show ?thesis
    using mid low neg by (auto simp add: evaluate_brightness_def)
qed

theorem evaluate_brightness_thresholds_witness:
  "py_gt (PInt 501) (PInt 500) \<and> evaluate_brightness (PInt 501) = PInt 10
   \<and> py_gt (PInt 500) (PInt 300) \<and> py_le (PInt 500) (PInt 500) \<and> evaluate_brightness (PInt 500) = PInt 40
   \<and> py_le (PInt 300) (PInt 300) \<and> evaluate_brightness (PInt 300) = PInt 80
   \<and> py_le (PInt (- 7)) (PInt 0) \<and> evaluate_brightness (PInt (- 7)) = PInt 80"
  using evaluate_brightness_thresholds[of "PInt 501"] evaluate_brightness_thresholds[of "PInt 500"]
    evaluate_brightness_thresholds[of "PInt 300"] evaluate_brightness_thresholds[of "PInt (- 7)"]
  by (simp add: py_gt_def py_le_def)

subsection \<open>Energy\<close>

lemma calculate_energy_kwh_unrounded:
  "calculate_energy_kwh bp hours watt
     = py_bind (energy_unrounded bp hours watt) (\<lambda>u. Inr (py_round4 u))"
  by (simp add: calculate_energy_kwh_def energy_unrounded_def py_bind_def split: sum.splits)

lemmas energy_eval = calculate_energy_kwh_def energy_unrounded_def default_hours_def default_watt_def
  num_eval

text \<open>
  Every whole percentage from 0 to 100, at the defaults: the result is the double of the
  decimal \<open>0.0004 * b\<close>.
\<close>

lemma energy_sweep:
  assumes "0 \<le> b" and "b \<le> 100"
  shows "calculate_energy_kwh (PInt b) default_hours default_watt
           = Inr (PFloat (float_lit (of_int (4 * b) / 10000)))"
proof -
  define Q where "Q k \<longleftrightarrow> calculate_energy_kwh (PInt k) default_hours default_watt
           = Inr (PFloat (float_lit (of_int (4 * k) / 10000)))" for k
  note ev = Q_def energy_eval
  have q0: "Q 0" "Q 1" "Q 2" "Q 3" "Q 4" "Q 5" "Q 6" "Q 7" "Q 8" "Q 9"
    by (simp_all add: ev)
  have q10: "Q 10" "Q 11" "Q 12" "Q 13" "Q 14" "Q 15" "Q 16" "Q 17" "Q 18" "Q 19"
    by (simp_all add: ev)
  have q20: "Q 20" "Q 21" "Q 22" "Q 23" "Q 24" "Q 25" "Q 26" "Q 27" "Q 28" "Q 29"
    by (simp_all add: ev)
  have q30: "Q 30" "Q 31" "Q 32" "Q 33" "Q 34" "Q 35" "Q 36" "Q 37" "Q 38" "Q 39"
    by (simp_all add: ev)
  have q40: "Q 40" "Q 41" "Q 42" "Q 43" "Q 44" "Q 45" "Q 46" "Q 47" "Q 48" "Q 49"
    by (simp_all add: ev)
  have q50: "Q 50" "Q 51" "Q 52" "Q 53" "Q 54" "Q 55" "Q 56" "Q 57" "Q 58" "Q 59"
    by (simp_all add: ev)
  have q60: "Q 60" "Q 61" "Q 62" "Q 63" "Q 64" "Q 65" "Q 66" "Q 67" "Q 68" "Q 69"
    by (simp_all add: ev)
  have q70: "Q 70" "Q 71" "Q 72" "Q 73" "Q 74" "Q 75" "Q 76" "Q 77" "Q 78" "Q 79"
    by (simp_all add: ev)
  have q80: "Q 80" "Q 81" "Q 82" "Q 83" "Q 84" "Q 85" "Q 86" "Q 87" "Q 88" "Q 89"
    by (simp_all add: ev)
  have q90: "Q 90" "Q 91" "Q 92" "Q 93" "Q 94" "Q 95" "Q 96" "Q 97" "Q 98" "Q 99"
    by (simp_all add: ev)
  have q100: "Q 100"
    by (simp_all add: ev)
  have "list_all Q [0..100]"
    by (simp add: upto.simps q0 q10 q20 q30 q40 q50 q60 q70 q80 q90 q100)
  then have "\<forall>k\<in>{0..100}. Q k"
    by (simp only: list_all_iff set_upto)
  with assms show ?thesis by (simp add: Q_def)
qed

text \<open>Halfway cases: 78.125 percent is 0.03125 kWh and 234.375 percent is 0.09375 kWh.\<close>

lemma energy_ties:
  "energy_unrounded (PFloat (Fin (625 / 8))) default_hours default_watt = Inr (PFloat (Fin (1 / 32)))"
  "calculate_energy_kwh (PFloat (Fin (625 / 8))) default_hours default_watt
     = Inr (PFloat (float_lit (312 / 10000)))"
  "energy_unrounded (PFloat (Fin (1875 / 8))) default_hours default_watt = Inr (PFloat (Fin (3 / 32)))"
  "calculate_energy_kwh (PFloat (Fin (1875 / 8))) default_hours default_watt
     = Inr (PFloat (float_lit (938 / 10000)))"
  by (simp_all add: energy_eval)

lemma energy_7:
  "energy_unrounded (PInt 7) default_hours default_watt
     = Inr (PFloat (Fin (807045053224793 / 288230376151711744)))"
  "float_lit (28 / 10000) = Fin (6456360425798343 / 2305843009213693952)"
  by (simp_all add: energy_eval)

text \<open>
  C3. \<open>calculate_energy_kwh\<close> returns \<open>round(brightness_percent/100 * watt * hours / 1000, 4)\<close>:
  an exception of the expression is the exception of the function, and a finite value \<open>u\<close> of
  the expression gives the double nearest to the decimal of four places nearest to \<open>u\<close>, the
  even one halfway. At the defaults every whole percentage \<open>b\<close> from 0 to 100 gives the double
  of \<open>0.0004 * b\<close>: 80 gives \<open>0.032\<close>, 40 gives \<open>0.016\<close>, 10 gives \<open>0.004\<close>; and the halfway values
  0.03125 and 0.09375 give \<open>0.0312\<close> and \<open>0.0938\<close>.
\<close>

theorem calculate_energy_kwh_rounds:
  "(\<forall>e. energy_unrounded brightness_percent hours watt = Inl e
        \<longrightarrow> calculate_energy_kwh brightness_percent hours watt = Inl e)
   \<and> (\<forall>u. energy_unrounded brightness_percent hours watt = Inr (PFloat (Fin u))
        \<longrightarrow> (\<exists>d. rounds_to_4_places u d
               \<and> calculate_energy_kwh brightness_percent hours watt
                   = Inr (PFloat (round_signed (u < 0) d))))
   \<and> (0 \<le> b \<and> b \<le> 100
        \<longrightarrow> calculate_energy_kwh (PInt b) default_hours default_watt
             = Inr (PFloat (float_lit (of_int (4 * b) / 10000))))
   \<and> calculate_energy_kwh (PInt 80) default_hours default_watt = Inr (PFloat (float_lit (32 / 1000)))
   \<and> calculate_energy_kwh (PInt 40) default_hours default_watt = Inr (PFloat (float_lit (16 / 1000)))
   \<and> calculate_energy_kwh (PInt 10) default_hours default_watt = Inr (PFloat (float_lit (4 / 1000)))
   \<and> calculate_energy_kwh (PFloat (Fin (625 / 8))) default_hours default_watt
       = Inr (PFloat (float_lit (312 / 10000)))
   \<and> calculate_energy_kwh (PFloat (Fin (1875 / 8))) default_hours default_watt
       = Inr (PFloat (float_lit (938 / 10000)))"
proof -
  have raises: "\<forall>e. energy_unrounded brightness_percent hours watt = Inl e
        \<longrightarrow> calculate_energy_kwh brightness_percent hours watt = Inl e"
    by (simp add: calculate_energy_kwh_unrounded py_bind_def)
  have rounds: "\<forall>u. energy_unrounded brightness_percent hours watt = Inr (PFloat (Fin u))
        \<longrightarrow> (\<exists>d. rounds_to_4_places u d
               \<and> calculate_energy_kwh brightness_percent hours watt
                   = Inr (PFloat (round_signed (u < 0) d)))"
    using py_round4_rounds by (simp add: calculate_energy_kwh_unrounded py_bind_def)
  have sweep: "0 \<le> b \<and> b \<le> 100
        \<longrightarrow> calculate_energy_kwh (PInt b) default_hours default_watt
             = Inr (PFloat (float_lit (of_int (4 * b) / 10000)))"
    using energy_sweep by blast
  have e80: "calculate_energy_kwh (PInt 80) default_hours default_watt = Inr (PFloat (float_lit (32 / 1000)))"
    using energy_sweep[of 80] by simp
  have e40: "calculate_energy_kwh (PInt 40) default_hours default_watt = Inr (PFloat (float_lit (16 / 1000)))"
    using energy_sweep[of 40] by simp
  have e10: "calculate_energy_kwh (PInt 10) default_hours default_watt = Inr (PFloat (float_lit (4 / 1000)))"
    using energy_sweep[of 10] by simp
  from raises rounds sweep e80 e40 e10 energy_ties(2) energy_ties(4) show ?thesis
    by (intro conjI)
qed

text \<open>
  At 7 percent the expression gives \<open>0.0028000000000000004\<close>, which is not the double of
  \<open>0.0028\<close>: the rounding is what returns \<open>0.0028\<close>.
\<close>

theorem calculate_energy_kwh_rounds_witness:
  "energy_unrounded (PInt 7) default_hours default_watt
     = Inr (PFloat (Fin (807045053224793 / 288230376151711744)))
   \<and> rounds_to_4_places (807045053224793 / 288230376151711744) (28 / 10000)
   \<and> calculate_energy_kwh (PInt 7) default_hours default_watt
       = Inr (PFloat (Fin (6456360425798343 / 2305843009213693952)))
   \<and> (807045053224793 / 288230376151711744 :: rat) \<noteq> 6456360425798343 / 2305843009213693952
   \<and> float_lit (28 / 10000) = Fin (6456360425798343 / 2305843009213693952)"
proof -
  have u: "energy_unrounded (PInt 7) default_hours default_watt
     = Inr (PFloat (Fin (807045053224793 / 288230376151711744)))"
    by (rule energy_7(1))
  have r: "rounds_to_4_places (807045053224793 / 288230376151711744) (28 / 10000)"
    by (simp add: rounds_to_4_places_def Let_def floor_rat_numeral)
  from calculate_energy_kwh_rounds[of "PInt 7" default_hours default_watt 7]
  have "calculate_energy_kwh (PInt 7) default_hours default_watt
          = Inr (PFloat (float_lit (of_int (4 * 7) / 10000)))"
    by simp
  then have "calculate_energy_kwh (PInt 7) default_hours default_watt
          = Inr (PFloat (Fin (6456360425798343 / 2305843009213693952)))"
    using energy_7(2) by simp
  with u r energy_7(2) show ?thesis by simp
qed

subsection \<open>Cost\<close>

lemma calculate_cost_unrounded:
  "calculate_cost kwh rate = py_bind (cost_unrounded kwh rate) (\<lambda>u. Inr (py_round4 u))"
  by (simp add: calculate_cost_def cost_unrounded_def)

lemmas cost_eval = calculate_cost_def cost_unrounded_def default_rate_def num_eval

text \<open>The costs of the three energies of the pipeline.\<close>

lemma cost_pipeline:
  "calculate_cost (PFloat (float_lit (32 / 1000))) default_rate = Inr (PFloat (float_lit (48 / 10000)))"
  "calculate_cost (PFloat (float_lit (16 / 1000))) default_rate = Inr (PFloat (float_lit (24 / 10000)))"
  "calculate_cost (PFloat (float_lit (4 / 1000))) default_rate = Inr (PFloat (float_lit (6 / 10000)))"
  by (simp_all add: cost_eval)

text \<open>
  \<open>0.123 * 0.15\<close> is \<open>0.018449999999999998\<close> in floats, below the halfway \<open>0.01845\<close>, and a
  halfway case: \<open>0.20833333333333334 * 0.15\<close> is \<open>0.03125\<close> exactly.
\<close>

lemma cost_rounding:
  "cost_unrounded (PFloat (float_lit (123 / 1000))) default_rate
     = Inr (PFloat (Fin (5317850439999081 / 288230376151711744)))"
  "calculate_cost (PFloat (float_lit (123 / 1000))) default_rate = Inr (PFloat (float_lit (184 / 10000)))"
  "cost_unrounded (PFloat (Fin (7505999378950827 / 36028797018963968))) default_rate
     = Inr (PFloat (Fin (1 / 32)))"
  "calculate_cost (PFloat (Fin (7505999378950827 / 36028797018963968))) default_rate
     = Inr (PFloat (float_lit (312 / 10000)))"
  "float_lit (184 / 10000) = Fin (662929865148937 / 36028797018963968)"
  by (simp_all add: cost_eval)

text \<open>
  C4. \<open>calculate_cost\<close> returns \<open>round(kwh * rate, 4)\<close>: an exception of the product is the
  exception of the function, a product of two ints is returned as it is, and a finite float
  \<open>u\<close> gives the double nearest to the decimal of four places nearest to \<open>u\<close>, the even one
  halfway. At the default rate \<open>0.032\<close> gives \<open>0.0048\<close>, \<open>0.016\<close> gives \<open>0.0024\<close>, \<open>0.004\<close> gives
  \<open>0.0006\<close>, \<open>0.123\<close> gives \<open>0.0184\<close>, and \<open>0.20833333333333334\<close>, whose product is the halfway
  \<open>0.03125\<close>, gives \<open>0.0312\<close>.
\<close>

theorem calculate_cost_rounds:
  "(\<forall>e. cost_unrounded kwh rate = Inl e \<longrightarrow> calculate_cost kwh rate = Inl e)
   \<and> (\<forall>i. cost_unrounded kwh rate = Inr (PInt i) \<longrightarrow> calculate_cost kwh rate = Inr (PInt i))
   \<and> (\<forall>u. cost_unrounded kwh rate = Inr (PFloat (Fin u))
        \<longrightarrow> (\<exists>d. rounds_to_4_places u d
               \<and> calculate_cost kwh rate = Inr (PFloat (round_signed (u < 0) d))))
   \<and> calculate_cost (PFloat (float_lit (32 / 1000))) default_rate = Inr (PFloat (float_lit (48 / 10000)))
   \<and> calculate_cost (PFloat (float_lit (16 / 1000))) default_rate = Inr (PFloat (float_lit (24 / 10000)))
   \<and> calculate_cost (PFloat (float_lit (4 / 1000))) default_rate = Inr (PFloat (float_lit (6 / 10000)))
   \<and> calculate_cost (PFloat (float_lit (123 / 1000))) default_rate = Inr (PFloat (float_lit (184 / 10000)))
   \<and> calculate_cost (PFloat (Fin (7505999378950827 / 36028797018963968))) default_rate
       = Inr (PFloat (float_lit (312 / 10000)))"
proof -
  have raises: "\<forall>e. cost_unrounded kwh rate = Inl e \<longrightarrow> calculate_cost kwh rate = Inl e"
    by (simp add: calculate_cost_unrounded py_bind_def)
  have ints: "\<forall>i. cost_unrounded kwh rate = Inr (PInt i) \<longrightarrow> calculate_cost kwh rate = Inr (PInt i)"
    by (simp add: calculate_cost_unrounded py_bind_def)
  have rounds: "\<forall>u. cost_unrounded kwh rate = Inr (PFloat (Fin u))
        \<longrightarrow> (\<exists>d. rounds_to_4_places u d
               \<and> calculate_cost kwh rate = Inr (PFloat (round_signed (u < 0) d)))"
    using py_round4_rounds by (simp add: calculate_cost_unrounded py_bind_def)
  from raises ints rounds cost_pipeline cost_rounding(2) cost_rounding(4) show ?thesis
    by (intro conjI)
qed

theorem calculate_cost_rounds_witness:
  "cost_unrounded (PFloat (float_lit (123 / 1000))) default_rate
     = Inr (PFloat (Fin (5317850439999081 / 288230376151711744)))
   \<and> rounds_to_4_places (5317850439999081 / 288230376151711744) (184 / 10000)
   \<and> calculate_cost (PFloat (float_lit (123 / 1000))) default_rate
       = Inr (PFloat (Fin (662929865148937 / 36028797018963968)))
   \<and> (5317850439999081 / 288230376151711744 :: rat) \<noteq> 662929865148937 / 36028797018963968"
proof -
  have u: "cost_unrounded (PFloat (float_lit (123 / 1000))) default_rate
     = Inr (PFloat (Fin (5317850439999081 / 288230376151711744)))"
    by (rule cost_rounding(1))
  have r: "rounds_to_4_places (5317850439999081 / 288230376151711744) (184 / 10000)"
    by (simp add: rounds_to_4_places_def Let_def floor_rat_numeral)
  from calculate_cost_rounds[of "PFloat (float_lit (123 / 1000))" default_rate] u
  obtain d where d: "rounds_to_4_places (5317850439999081 / 288230376151711744) d"
    and c: "calculate_cost (PFloat (float_lit (123 / 1000))) default_rate
              = Inr (PFloat (round_signed ((5317850439999081 / 288230376151711744 :: rat) < 0) d))"
    by blast
  have dv: "d = 184 / 10000" by (rule rounds_to_4_places_unique[OF d r])
  have rs: "round_signed False (184 / 10000) = Fin (662929865148937 / 36028797018963968)"
    by (simp add: num_eval)
  have "calculate_cost (PFloat (float_lit (123 / 1000))) default_rate
       = Inr (PFloat (round_signed False (184 / 10000)))"
    using c unfolding dv by simp
  then have "calculate_cost (PFloat (float_lit (123 / 1000))) default_rate
       = Inr (PFloat (Fin (662929865148937 / 36028797018963968)))"
    unfolding rs .
  with u r show ?thesis by simp
qed

section \<open>Facts about tables\<close>

lemma py_bind_Inr: "py_bind (Inr v) f = f v"
  by (simp add: py_bind_def)

lemma py_bind_Inl: "py_bind (Inl e) f = Inl e"
  by (simp add: py_bind_def)

lemma getitem_Some: "map_of (cols df) c = Some col \<Longrightarrow> getitem df c = Inr col"
  by (simp add: getitem_def)

lemma getitem_None: "map_of (cols df) c = None \<Longrightarrow> getitem df c = Inl (KeyError (quoted c))"
  by (simp add: getitem_def)

lemma map_of_setitem: "map_of (cols (setitem df c col)) = (map_of (cols df))(c \<mapsto> col)"
  by (simp add: setitem_def update_conv')

lemma getitem_setitem_same: "getitem (setitem df c col) c = Inr col"
  by (simp add: getitem_def map_of_setitem)

lemma getitem_setitem_other: "c' \<noteq> c \<Longrightarrow> getitem (setitem df c col) c' = getitem df c'"
  by (simp add: getitem_def map_of_setitem)

lemma wf_frame_length: "wf_frame df \<Longrightarrow> map_of (cols df) c = Some col \<Longrightarrow> length col = n_rows df"
  by (auto simp add: wf_frame_def list_all_iff dest: map_of_SomeD)

lemma loc_Some:
  "map_of (cols df) c = Some col \<Longrightarrow> i < length col \<Longrightarrow> loc df i c = Inr (col ! i)"
  by (simp add: loc_def getitem_Some py_bind_Inr)

section \<open>The nearest-time matcher\<close>

lemma dropna_none:
  "\<forall>x\<in>set xs. f x = None \<Longrightarrow> dropna (enumerate n (map f xs)) = []"
  by (induction xs arbitrary: n) simp_all

lemma dropna_all:
  "\<forall>x\<in>set xs. f x \<noteq> None \<Longrightarrow>
     dropna (enumerate n (map f xs)) = map (\<lambda>(i, x). (i, the (f x))) (enumerate n xs)"
  by (induction xs arbitrary: n) auto

lemma least_from_first:
  "\<exists>ys zs. b # xs = ys @ least_from b xs # zs
     \<and> (\<forall>y\<in>set ys. snd (least_from b xs) < snd y)
     \<and> (\<forall>z\<in>set zs. snd (least_from b xs) \<le> snd z)"
proof (induction xs arbitrary: b)
  case Nil
  show ?case by (intro exI[of _ "[]"]) simp
next
  case (Cons x xs)
  show ?case
  proof (cases "snd x < snd b")
    case True
    define r where "r = least_from x xs"
    have eq: "least_from b (x # xs) = r" using True by (simp add: r_def)
    from Cons.IH[of x] obtain ys zs where d: "x # xs = ys @ r # zs"
      and lt: "\<forall>y\<in>set ys. snd r < snd y"
      and le: "\<forall>z\<in>set zs. snd r \<le> snd z" unfolding r_def by blast
    have "r \<in> set (x # xs)" unfolding d by simp
    have "snd r \<le> snd x"
    proof (cases ys)
      case Nil
      with d have "x # xs = r # zs" by (simp only: append_Nil)
      then have "x = r" by blast
      then show ?thesis by simp
    next
      case (Cons y ys')
      with d have "y = x" by simp
      with lt Cons show ?thesis by auto
    qed
    with True have rb: "snd r < snd b" by simp
    have d': "b # x # xs = (b # ys) @ r # zs" using d by (metis append_Cons)
    have "\<forall>y\<in>set (b # ys). snd r < snd y" using rb lt by simp
    with d' le show ?thesis unfolding eq by blast
  next
    case False
    define r where "r = least_from b xs"
    have eq: "least_from b (x # xs) = r" using False by (simp add: r_def)
    from Cons.IH[of b] obtain ys zs where d: "b # xs = ys @ r # zs"
      and lt: "\<forall>y\<in>set ys. snd r < snd y"
      and le: "\<forall>z\<in>set zs. snd r \<le> snd z" unfolding r_def by blast
    show ?thesis
    proof (cases ys)
      case Nil
      with d have "b # xs = r # zs" by (simp only: append_Nil)
      then have r: "b = r" and zs: "xs = zs" by blast+
      have d': "b # x # xs = [] @ r # (x # zs)" using r zs by simp
      have "\<forall>z\<in>set (x # zs). snd r \<le> snd z" using le False r by auto
      with d' show ?thesis unfolding eq by (metis empty_iff empty_set)
    next
      case (Cons y ys')
      with d have y: "y = b" and xs: "xs = ys' @ r # zs" by simp_all
      from lt Cons y have "snd r < snd b" by simp
      with False have rx: "snd r < snd x" by simp
      have d': "b # x # xs = (b # x # ys') @ r # zs" using xs by (metis append_Cons)
      have "\<forall>y\<in>set (b # x # ys'). snd r < snd y" using lt Cons y rx by simp
      with d' le show ?thesis unfolding eq by blast
    qed
  qed
qed

lemma nearest_body_no_time:
  "map_of (cols df) ''time'' = None \<Longrightarrow>
     nearest_body to_time clock df = (Inl (KeyError (quoted ''time'')), df)"
  by (simp add: nearest_body_def getitem_None)

lemma nearest_body_frame:
  "map_of (cols df) ''time'' = Some ts \<Longrightarrow>
     snd (nearest_body to_time clock df) = setitem df ''parsed_time'' (map (\<lambda>c. time_cell (to_time c)) ts)"
  by (simp add: nearest_body_def getitem_Some Let_def comp_def)

lemma snd_get_nearest:
  "snd (get_nearest_time_brightness to_time clock df) = snd (nearest_body to_time clock df)"
  by (simp add: get_nearest_time_brightness_def split: prod.splits)

lemma fst_get_nearest:
  "fst (get_nearest_time_brightness to_time clock df) =
     (case fst (nearest_body to_time clock df) of
        Inl e \<Rightarrow> Inr (None, None)
      | Inr (t, b) \<Rightarrow> Inr (Some t, Some b))"
  by (simp add: get_nearest_time_brightness_def try_except_def py_bind_def
      split: prod.splits sum.splits)

lemma nearest_body_unparsable:
  assumes "map_of (cols df) ''time'' = Some ts" and "\<forall>c\<in>set ts. to_time c = None"
  shows "fst (nearest_body to_time clock df)
           = Inl (ValueError ''attempt to get argmin of an empty sequence'')"
  using assms by (simp add: nearest_body_def getitem_Some Let_def dropna_none py_bind_Inl)

text \<open>The distance that the body computes is the distance of the specification.\<close>

lemma seconds_apart:
  "to_time c = Some t \<Longrightarrow>
     \<bar>total_seconds (replace_second_microsecond clock)
        (combine (dt_date (replace_second_microsecond clock)) t)\<bar>
       = seconds_from_now to_time clock c"
proof -
  assume t: "to_time c = Some t"
  obtain h m where hm: "t = (h, m)" by (cases t)
  have "(int (dt_hour clock) * 3600 + int (dt_minute clock) * 60) - (int h * 3600 + int m * 60)
          = 60 * ((int (dt_hour clock) * 60 + int (dt_minute clock)) - (int h * 60 + int m))"
    by simp
  then have "\<bar>(int (dt_hour clock) * 3600 + int (dt_minute clock) * 60) - (int h * 3600 + int m * 60)\<bar>
          = 60 * \<bar>(int (dt_hour clock) * 60 + int (dt_minute clock)) - (int h * 60 + int m)\<bar>"
    by (simp only: abs_mult)
  then show ?thesis
    by (simp add: seconds_from_now_def t hm total_seconds_def replace_second_microsecond_def
        combine_def second_of_day_def del: of_int_mult of_int_add of_int_diff)
qed

lemma nearest_body_parsable:
  assumes "map_of (cols df) ''time'' = Some ts" and "\<forall>c\<in>set ts. to_time c \<noteq> None"
  shows "fst (nearest_body to_time clock df) =
           py_bind (idxmin (map (\<lambda>(i, c). (i, seconds_from_now to_time clock c)) (enumerate 0 ts))) (\<lambda>label.
           py_bind (loc (setitem df ''parsed_time'' (map (\<lambda>c. time_cell (to_time c)) ts)) label ''time'') (\<lambda>t.
           py_bind (loc (setitem df ''parsed_time'' (map (\<lambda>c. time_cell (to_time c)) ts)) label ''brightness'') (\<lambda>b.
           Inr (t, b))))"
proof -
  have "map (\<lambda>(i, d). (i, \<bar>total_seconds (replace_second_microsecond clock) d\<bar>))
          (map (\<lambda>(i, t). (i, combine (dt_date (replace_second_microsecond clock)) t))
            (dropna (enumerate 0 (map to_time ts))))
        = map (\<lambda>(i, c). (i, seconds_from_now to_time clock c)) (enumerate 0 ts)"
  proof -
    have "seconds_from_now to_time clock c =
            \<bar>total_seconds (replace_second_microsecond clock)
              (combine (dt_date (replace_second_microsecond clock)) (the (to_time c)))\<bar>"
      if "c \<in> set ts" for c
      using assms(2) that by (auto simp add: seconds_apart)
    then show ?thesis
      using assms(2) by (auto simp add: dropna_all in_set_enumerate_eq)
  qed
  then show ?thesis
    using assms(1) by (simp add: nearest_body_def getitem_Some Let_def comp_def)
qed

lemma idxmin_first:
  assumes "xs \<noteq> []"
  shows "\<exists>k<length xs. idxmin xs = Inr (fst (xs ! k))
           \<and> (\<forall>j<length xs. snd (xs ! k) \<le> snd (xs ! j))
           \<and> (\<forall>j<k. snd (xs ! k) < snd (xs ! j))"
proof -
  from assms obtain b bs where xs: "xs = b # bs" by (cases xs) auto
  define r where "r = least_from b bs"
  from least_from_first[of b bs] obtain ys zs where d: "xs = ys @ r # zs"
    and lt: "\<forall>y\<in>set ys. snd r < snd y"
    and le: "\<forall>z\<in>set zs. snd r \<le> snd z" unfolding r_def xs by blast
  have k: "length ys < length xs" and rk: "xs ! length ys = r" unfolding d by simp_all
  have "idxmin xs = Inr (fst r)" by (simp add: xs r_def)
  moreover have "\<forall>j<length xs. snd r \<le> snd (xs ! j)"
  proof (intro allI impI)
    fix j assume "j < length xs"
    then have "xs ! j \<in> set xs" by simp
    then have "xs ! j \<in> set ys \<or> xs ! j = r \<or> xs ! j \<in> set zs" unfolding d by auto
    with lt le show "snd r \<le> snd (xs ! j)" by auto
  qed
  moreover have "\<forall>j<length ys. snd r < snd (xs ! j)"
    using lt unfolding d by (simp add: nth_append)
  ultimately show ?thesis using k rk by blast
qed

text \<open>
  C6. On a table with at least one row whose times all parse, the function returns the
  time and brightness of a row whose distance in seconds from now is least, and of the rows
  at that distance the first.
\<close>

theorem nearest_is_first_minimum:
  assumes wf: "wf_frame df"
    and time: "map_of (cols df) ''time'' = Some ts"
    and brightness: "map_of (cols df) ''brightness'' = Some bs"
    and rows: "ts \<noteq> []"
    and parsable: "\<forall>c\<in>set ts. to_time c \<noteq> None"
  shows "\<exists>i<length ts.
           fst (get_nearest_time_brightness to_time clock df) = Inr (Some (ts ! i), Some (bs ! i))
           \<and> (\<forall>j<length ts. seconds_from_now to_time clock (ts ! i) \<le> seconds_from_now to_time clock (ts ! j))
           \<and> (\<forall>j<i. seconds_from_now to_time clock (ts ! i) < seconds_from_now to_time clock (ts ! j))"
proof -
  define L where "L = map (\<lambda>(i, c). (i, seconds_from_now to_time clock c)) (enumerate 0 ts)"
  define df1 where "df1 = setitem df ''parsed_time'' (map (\<lambda>c. time_cell (to_time c)) ts)"
  have len: "length L = length ts" by (simp add: L_def)
  have nth: "L ! j = (j, seconds_from_now to_time clock (ts ! j))" if "j < length ts" for j
    using that by (simp add: L_def nth_enumerate_eq)
  have "L \<noteq> []" using rows len by auto
  from idxmin_first[OF this] obtain k where k: "k < length ts"
    and idx: "idxmin L = Inr (fst (L ! k))"
    and le: "\<forall>j<length ts. snd (L ! k) \<le> snd (L ! j)"
    and lt: "\<forall>j<k. snd (L ! k) < snd (L ! j)" unfolding len by blast
  have label: "idxmin L = Inr k" using idx nth[OF k] by simp
  have lb: "length bs = length ts"
    using wf_frame_length[OF wf time] wf_frame_length[OF wf brightness] by simp
  have t: "loc df1 k ''time'' = Inr (ts ! k)"
    using time k by (simp add: loc_def df1_def getitem_setitem_other getitem_Some py_bind_Inr)
  have b: "loc df1 k ''brightness'' = Inr (bs ! k)"
    using brightness k lb by (simp add: loc_def df1_def getitem_setitem_other getitem_Some py_bind_Inr)
  have "fst (nearest_body to_time clock df) = Inr (ts ! k, bs ! k)"
    unfolding nearest_body_parsable[OF time parsable] L_def[symmetric] df1_def[symmetric]
    by (simp add: label t b py_bind_Inr)
  then have "fst (get_nearest_time_brightness to_time clock df) = Inr (Some (ts ! k), Some (bs ! k))"
    by (simp add: fst_get_nearest)
  moreover have "\<forall>j<length ts. seconds_from_now to_time clock (ts ! k) \<le> seconds_from_now to_time clock (ts ! j)"
    using le nth k by simp
  moreover have "\<forall>j<k. seconds_from_now to_time clock (ts ! k) < seconds_from_now to_time clock (ts ! j)"
    using lt nth k by simp
  ultimately show ?thesis using k by blast
qed

lemma strptime_examples:
  "to_time_HM (Str ''09:00'') = Some (9, 0)" "to_time_HM (Str ''13:00'') = Some (13, 0)"
  "to_time_HM (Str ''18:00'') = Some (18, 0)"
  "to_time_HM (Str ''noon'') = None" "to_time_HM (Str ''25:00'') = None"
  by (simp_all add: to_time_HM_def strptime_HM_def match_hour_def match_minute_def digit_val_def)

text \<open>
  The distances of the three readings of \<open>day_example\<close>, in seconds: read at 12:50 and read
  at 11:00, where the first two are equally far.
\<close>

lemma seconds_examples:
  "seconds_from_now to_time_HM clock_1250 (Str ''09:00'') = 13800"
  "seconds_from_now to_time_HM clock_1250 (Str ''13:00'') = 600"
  "seconds_from_now to_time_HM clock_1250 (Str ''18:00'') = 18600"
  "seconds_from_now to_time_HM clock_1100 (Str ''09:00'') = 7200"
  "seconds_from_now to_time_HM clock_1100 (Str ''13:00'') = 7200"
  "seconds_from_now to_time_HM clock_1100 (Str ''18:00'') = 25200"
  "seconds_from_now to_time_HM clock_example (Str ''09:00'') = 300"
  "seconds_from_now to_time_HM clock_example (Str ''13:00'') = 14100"
  by (simp_all add: seconds_from_now_def strptime_examples clock_1250_def clock_1100_def
      clock_example_def)

theorem nearest_is_first_minimum_witness:
  "wf_frame day_example
   \<and> map_of (cols day_example) ''time'' = Some [Str ''09:00'', Str ''13:00'', Str ''18:00'']
   \<and> map_of (cols day_example) ''brightness'' = Some [Num (PInt 80), Num (PInt 10), Num (PInt 40)]
   \<and> to_time_HM (Str ''09:00'') = Some (9, 0) \<and> to_time_HM (Str ''13:00'') = Some (13, 0)
   \<and> to_time_HM (Str ''18:00'') = Some (18, 0)
   \<and> seconds_from_now to_time_HM clock_1250 (Str ''09:00'') = 13800
   \<and> seconds_from_now to_time_HM clock_1250 (Str ''13:00'') = 600
   \<and> seconds_from_now to_time_HM clock_1250 (Str ''18:00'') = 18600
   \<and> fst (get_nearest_time_brightness to_time_HM clock_1250 day_example)
       = Inr (Some (Str ''13:00''), Some (Num (PInt 10)))
   \<and> seconds_from_now to_time_HM clock_1100 (Str ''09:00'') = 7200
   \<and> seconds_from_now to_time_HM clock_1100 (Str ''13:00'') = 7200
   \<and> seconds_from_now to_time_HM clock_1100 (Str ''18:00'') = 25200
   \<and> fst (get_nearest_time_brightness to_time_HM clock_1100 day_example)
       = Inr (Some (Str ''09:00''), Some (Num (PInt 80)))"
proof -
  let ?ts = "[Str ''09:00'', Str ''13:00'', Str ''18:00'']"
  let ?bs = "[Num (PInt 80), Num (PInt 10), Num (PInt 40)]"
  have wf: "wf_frame day_example" by (simp add: wf_frame_def day_example_def)
  have t: "map_of (cols day_example) ''time'' = Some ?ts"
    by (simp add: day_example_def)
  have b: "map_of (cols day_example) ''brightness'' = Some ?bs"
    by (simp add: day_example_def)
  have p: "\<forall>c\<in>set ?ts. to_time_HM c \<noteq> None"
    by (simp add: strptime_examples)
  have ne: "?ts \<noteq> []" by simp
  have three: "i = 0 \<or> i = 1 \<or> i = 2" if "i < length ?ts" for i :: nat
    using that by (auto simp add: less_Suc_eq numeral_2_eq_2)
  have afternoon: "fst (get_nearest_time_brightness to_time_HM clock_1250 day_example)
       = Inr (Some (Str ''13:00''), Some (Num (PInt 10)))"
  proof -
    from nearest_is_first_minimum[OF wf t b ne p, of clock_1250]
    obtain i where i: "i < length ?ts"
      and r: "fst (get_nearest_time_brightness to_time_HM clock_1250 day_example)
                = Inr (Some (?ts ! i), Some (?bs ! i))"
      and m: "\<forall>j<length ?ts. seconds_from_now to_time_HM clock_1250 (?ts ! i)
                \<le> seconds_from_now to_time_HM clock_1250 (?ts ! j)"
      by blast
    from m[rule_format, of 1] have "seconds_from_now to_time_HM clock_1250 (?ts ! i)
                \<le> seconds_from_now to_time_HM clock_1250 (?ts ! 1)" by simp
    with three[OF i] have "i = 1" by (auto simp add: seconds_examples)
    with r show ?thesis by simp
  qed
  have tie: "fst (get_nearest_time_brightness to_time_HM clock_1100 day_example)
       = Inr (Some (Str ''09:00''), Some (Num (PInt 80)))"
  proof -
    from nearest_is_first_minimum[OF wf t b ne p, of clock_1100]
    obtain i where i: "i < length ?ts"
      and r: "fst (get_nearest_time_brightness to_time_HM clock_1100 day_example)
                = Inr (Some (?ts ! i), Some (?bs ! i))"
      and m: "\<forall>j<length ?ts. seconds_from_now to_time_HM clock_1100 (?ts ! i)
                \<le> seconds_from_now to_time_HM clock_1100 (?ts ! j)"
      and f: "\<forall>j<i. seconds_from_now to_time_HM clock_1100 (?ts ! i)
                < seconds_from_now to_time_HM clock_1100 (?ts ! j)"
      by blast
    from m[rule_format, of 0] have m0: "seconds_from_now to_time_HM clock_1100 (?ts ! i)
                \<le> seconds_from_now to_time_HM clock_1100 (?ts ! 0)" by simp
    have "i \<noteq> 1"
    proof
      assume "i = 1"
      with f[rule_format, of 0] have "seconds_from_now to_time_HM clock_1100 (?ts ! 1)
                < seconds_from_now to_time_HM clock_1100 (?ts ! 0)" by simp
      then show False by (simp add: seconds_examples)
    qed
    moreover have "i \<noteq> 2" using m0 by (auto simp add: seconds_examples)
    ultimately have "i = 0" using three[OF i] by blast
    with r show ?thesis by simp
  qed
  from wf t b afternoon tie show ?thesis
    by (simp add: strptime_examples seconds_examples)
qed

text \<open>
  C5. Where no value of the \<open>time\<close> column parses (an empty column among them), every row
  is dropped and the function returns \<open>(None, None)\<close>, not an exception.
\<close>

theorem nearest_no_parsable_time:
  assumes "map_of (cols df) ''time'' = Some ts" and "\<forall>c\<in>set ts. to_time c = None"
  shows "dropna (enumerate 0 (map to_time ts)) = []
         \<and> fst (get_nearest_time_brightness to_time clock df) = Inr (None, None)"
  using assms by (simp add: dropna_none fst_get_nearest nearest_body_unparsable)

theorem nearest_no_parsable_time_witness:
  "map_of (cols unparsable_example) ''time'' = Some [Str ''noon'', Str ''25:00'']
   \<and> to_time_HM (Str ''noon'') = None \<and> to_time_HM (Str ''25:00'') = None
   \<and> fst (get_nearest_time_brightness to_time_HM clock_example unparsable_example) = Inr (None, None)"
proof -
  have t: "map_of (cols unparsable_example) ''time'' = Some [Str ''noon'', Str ''25:00'']"
    by (simp add: unparsable_example_def)
  have p: "\<forall>c\<in>set [Str ''noon'', Str ''25:00'']. to_time_HM c = None"
    by (simp add: strptime_examples)
  from nearest_no_parsable_time[OF t p, of clock_example] t show ?thesis
    by (simp add: strptime_examples)
qed

text \<open>
  C9. The call changes the caller's table: afterwards it has the column \<open>parsed_time\<close>,
  holding for each row the parsed time of day or \<open>NaT\<close>, and every other column, \<open>time\<close>,
  \<open>lux\<close>, \<open>brightness\<close>, \<open>energy_kwh\<close> and \<open>cost\<close> among them, is as it was.
\<close>

theorem nearest_adds_parsed_time:
  assumes "map_of (cols df) ''time'' = Some ts"
  shows "map_of (cols (snd (get_nearest_time_brightness to_time clock df))) ''parsed_time''
           = Some (map (\<lambda>c. time_cell (to_time c)) ts)
         \<and> (\<forall>c. c \<noteq> ''parsed_time'' \<longrightarrow>
              map_of (cols (snd (get_nearest_time_brightness to_time clock df))) c = map_of (cols df) c)
         \<and> (\<forall>c\<in>set [''time'', ''lux'', ''brightness'', ''energy_kwh'', ''cost''].
              map_of (cols (snd (get_nearest_time_brightness to_time clock df))) c = map_of (cols df) c)
         \<and> n_rows (snd (get_nearest_time_brightness to_time clock df)) = n_rows df"
proof -
  have n: "n_rows (setitem df c col) = n_rows df" for c col
    by (simp add: setitem_def)
  show ?thesis
    using assms by (simp add: snd_get_nearest nearest_body_frame map_of_setitem n)
qed

theorem nearest_adds_parsed_time_witness:
  "map_of (cols schedule_example) ''time'' = Some [Str ''09:00'', Str ''13:00'']
   \<and> map_of (cols (snd (get_nearest_time_brightness to_time_HM clock_example schedule_example))) ''parsed_time''
       = Some [Tod 9 0, Tod 13 0]
   \<and> map_of (cols (snd (get_nearest_time_brightness to_time_HM clock_example schedule_example))) ''lux''
       = Some [Num (PInt 200), Num (PInt 600)]
   \<and> map_of (cols schedule_example) ''parsed_time'' = None"
proof -
  have t: "map_of (cols schedule_example) ''time'' = Some [Str ''09:00'', Str ''13:00'']"
    by (simp add: schedule_example_def)
  have l: "map_of (cols schedule_example) ''lux'' = Some [Num (PInt 200), Num (PInt 600)]"
    by (simp add: schedule_example_def)
  have n: "map_of (cols schedule_example) ''parsed_time'' = None"
    by (simp add: schedule_example_def)
  from nearest_adds_parsed_time[OF t, of to_time_HM clock_example] t l n show ?thesis
    by (simp add: strptime_examples)
qed

lemma nearest_body_no_brightness:
  assumes "map_of (cols df) ''brightness'' = None"
  shows "\<exists>e. fst (nearest_body to_time clock df) = Inl e"
proof (cases "map_of (cols df) ''time''")
  case None
  then show ?thesis by (simp add: nearest_body_no_time)
next
  case (Some ts)
  have "loc (setitem df ''parsed_time'' col) label ''brightness'' = Inl (KeyError (quoted ''brightness''))"
    for col label
    using assms by (simp add: loc_def getitem_setitem_other getitem_None py_bind_Inl)
  then show ?thesis
    using Some by (simp add: nearest_body_def getitem_Some Let_def py_bind_def split: sum.splits)
qed

text \<open>
  C10. The function returns on every table and never raises: an exception of the body is
  caught and gives \<open>(None, None)\<close>, as on a table without the \<open>time\<close> or the
  \<open>brightness\<close> column.
\<close>

theorem nearest_never_raises:
  "(\<exists>r. fst (get_nearest_time_brightness to_time clock df) = Inr r)
   \<and> (map_of (cols df) ''time'' = None \<or> map_of (cols df) ''brightness'' = None \<longrightarrow>
        fst (get_nearest_time_brightness to_time clock df) = Inr (None, None))
   \<and> (\<forall>e. fst (nearest_body to_time clock df) = Inl e \<longrightarrow>
        fst (get_nearest_time_brightness to_time clock df) = Inr (None, None))"
proof -
  have caught: "fst (get_nearest_time_brightness to_time clock df) = Inr (None, None)"
    if "fst (nearest_body to_time clock df) = Inl e" for e
    using that by (simp add: fst_get_nearest)
  have "\<exists>r. fst (get_nearest_time_brightness to_time clock df) = Inr r"
    by (simp add: fst_get_nearest split: sum.splits prod.splits)
  moreover have "fst (get_nearest_time_brightness to_time clock df) = Inr (None, None)"
    if "map_of (cols df) ''time'' = None \<or> map_of (cols df) ''brightness'' = None"
    using that caught nearest_body_no_brightness[of df to_time clock]
    by (auto simp add: nearest_body_no_time)
  ultimately show ?thesis using caught by blast
qed

theorem nearest_never_raises_witness:
  "map_of (cols no_time_example) ''time'' = None
   \<and> fst (get_nearest_time_brightness to_time_HM clock_example no_time_example) = Inr (None, None)
   \<and> map_of (cols no_brightness_example) ''brightness'' = None
   \<and> fst (get_nearest_time_brightness to_time_HM clock_example no_brightness_example) = Inr (None, None)"
proof -
  have t: "map_of (cols no_time_example) ''time'' = None"
    by (simp add: no_time_example_def)
  have b: "map_of (cols no_brightness_example) ''brightness'' = None"
    by (simp add: no_brightness_example_def)
  from nearest_never_raises[of to_time_HM clock_example no_time_example]
    nearest_never_raises[of to_time_HM clock_example no_brightness_example] t b
  show ?thesis by blast
qed

section \<open>The enrichment\<close>

lemma sequence_map_Inr:
  "\<forall>x\<in>set xs. f x = Inr (g x) \<Longrightarrow> sequence (map f xs) = Inr (map g xs)"
  by (induction xs) (simp_all add: py_bind_def)

lemma series_apply_map:
  "\<forall>x\<in>set xs. f x = Inr (g x) \<Longrightarrow> series_apply f xs = Inr (map g xs)"
  unfolding series_apply_def by (rule sequence_map_Inr)

lemma sequence_Inr_nth:
  "sequence rs = Inr vs \<Longrightarrow> length vs = length rs \<and> (\<forall>i<length rs. rs ! i = Inr (vs ! i))"
proof (induction rs arbitrary: vs)
  case Nil
  then show ?case by simp
next
  case (Cons r rs)
  from Cons.prems obtain v vs' where r: "r = Inr v" and s: "sequence rs = Inr vs'" and vs: "vs = v # vs'"
    by (auto simp add: py_bind_def split: sum.splits)
  from Cons.IH[OF s] r vs show ?case by (auto simp add: nth_Cons split: nat.splits)
qed

lemma series_apply_nth:
  "series_apply f xs = Inr ys \<Longrightarrow> length ys = length xs \<and> (\<forall>i<length xs. f (xs ! i) = Inr (ys ! i))"
  unfolding series_apply_def using sequence_Inr_nth[of "map f xs" ys] by simp

lemma series_apply_equal:
  assumes "series_apply f xs = Inr ys" and "i < length xs" and "j < length xs" and "xs ! i = xs ! j"
  shows "ys ! i = ys ! j"
proof -
  from series_apply_nth[OF assms(1)] assms(2,3)
  have "f (xs ! i) = Inr (ys ! i)" and "f (xs ! j) = Inr (ys ! j)" by simp_all
  with assms(4) show ?thesis by simp
qed

text \<open>A derived column holds numbers only.\<close>

lemma brightness_cell_number: "brightness_cell c = Inr b \<Longrightarrow> \<exists>n. b = Num n"
  by (cases c) (auto simp add: brightness_cell_def)

lemma energy_cell_number: "energy_cell c = Inr k \<Longrightarrow> \<exists>n. k = Num n"
  by (cases c) (auto simp add: energy_cell_def py_bind_def split: sum.splits)

text \<open>The derived columns as a function of the \<open>lux\<close> column.\<close>

lemma derived_enrich:
  "derived (enrich df) =
     py_bind (getitem df ''lux'') (\<lambda>lux.
     py_bind (series_apply brightness_cell lux) (\<lambda>bs.
     py_bind (series_apply energy_cell bs) (\<lambda>es.
     py_bind (series_apply cost_cell es) (\<lambda>cs.
     Inr (Some bs, Some es, Some cs)))))"
  by (simp add: derived_def enrich_def Let_def getitem_setitem_same map_of_setitem py_bind_def
      split: sum.splits)

text \<open>Each step of a row gives the value of the specification's table.\<close>

lemma brightness_cell_table:
  "brightness_cell (Num lux) = Inr (Num (fst (enriched_values lux)))"
  by (simp add: brightness_cell_def evaluate_brightness_def enriched_values_def)

lemma energy_cell_table:
  "energy_cell (Num (fst (enriched_values lux))) = Inr (Num (fst (snd (enriched_values lux))))"
  using energy_sweep[of 10] energy_sweep[of 40] energy_sweep[of 80]
  by (simp add: energy_cell_def enriched_values_def py_bind_def)

lemma cost_cell_table:
  "cost_cell (Num (fst (snd (enriched_values lux)))) = Inr (Num (snd (snd (enriched_values lux))))"
  using cost_pipeline by (simp add: cost_cell_def enriched_values_def py_bind_def)

lemma derived_table:
  assumes "map_of (cols df) ''lux'' = Some (map Num ls)"
  shows "derived (enrich df) =
           Inr (Some (map (\<lambda>l. Num (fst (enriched_values l))) ls),
                Some (map (\<lambda>l. Num (fst (snd (enriched_values l)))) ls),
                Some (map (\<lambda>l. Num (snd (snd (enriched_values l)))) ls))"
proof -
  have b: "series_apply brightness_cell (map Num ls) = Inr (map (\<lambda>l. Num (fst (enriched_values l))) ls)"
    using series_apply_map[of "map Num ls" brightness_cell "\<lambda>c. case c of Num l \<Rightarrow> Num (fst (enriched_values l)) | _ \<Rightarrow> c"]
    by (auto simp add: brightness_cell_table comp_def)
  have e: "series_apply energy_cell (map (\<lambda>l. Num (fst (enriched_values l))) ls)
             = Inr (map (\<lambda>l. Num (fst (snd (enriched_values l)))) ls)"
    unfolding series_apply_def map_map
    using sequence_map_Inr[of ls "energy_cell \<circ> (\<lambda>l. Num (fst (enriched_values l)))"
        "\<lambda>l. Num (fst (snd (enriched_values l)))"]
    by (simp add: energy_cell_table)
  have c: "series_apply cost_cell (map (\<lambda>l. Num (fst (snd (enriched_values l)))) ls)
             = Inr (map (\<lambda>l. Num (snd (snd (enriched_values l)))) ls)"
    unfolding series_apply_def map_map
    using sequence_map_Inr[of ls "cost_cell \<circ> (\<lambda>l. Num (fst (snd (enriched_values l))))"
        "\<lambda>l. Num (snd (snd (enriched_values l)))"]
    by (simp add: cost_cell_table)
  show ?thesis
    by (simp add: derived_enrich getitem_Some[OF assms] py_bind_def b e c)
qed

text \<open>A second run on the table that a run leaves derives the same columns.\<close>

lemma cols_enrich_lux:
  "enrich df = Inr d \<Longrightarrow> map_of (cols d) ''lux'' = map_of (cols df) ''lux''"
  by (auto simp add: enrich_def Let_def py_bind_def map_of_setitem split: sum.splits)

text \<open>
  C7. The enrichment is deterministic and has no hidden state. The columns \<open>brightness\<close>,
  \<open>energy_kwh\<close> and \<open>cost\<close> that a run derives, or the exception that ends it, depend on the
  \<open>lux\<close> column alone, so two runs on the same rows agree, and a second run on the table that
  the first one leaves derives the same columns again. On numbers the three functions give,
  row by row, the values of the specification's table for the bucket of \<open>lux\<close>: \<open>(10, 0.004,
  0.0006)\<close> above 500, \<open>(40, 0.016, 0.0024)\<close> above 300, \<open>(80, 0.032, 0.0048)\<close> otherwise; so equal
  \<open>lux\<close> gives equal brightness, energy and cost.
\<close>

theorem enrichment_deterministic:
  "(map_of (cols df) ''lux'' = map_of (cols df') ''lux'' \<longrightarrow> derived (enrich df) = derived (enrich df'))
   \<and> (enrich df = Inr d \<longrightarrow> derived (enrich d) = derived (enrich df))
   \<and> (map_of (cols df) ''lux'' = Some (map Num ls) \<longrightarrow>
        derived (enrich df) =
          Inr (Some (map (\<lambda>l. Num (fst (enriched_values l))) ls),
               Some (map (\<lambda>l. Num (fst (snd (enriched_values l)))) ls),
               Some (map (\<lambda>l. Num (snd (snd (enriched_values l)))) ls)))
   \<and> evaluate_brightness lux = fst (enriched_values lux)
   \<and> calculate_energy_kwh (evaluate_brightness lux) default_hours default_watt
       = Inr (fst (snd (enriched_values lux)))
   \<and> calculate_cost (fst (snd (enriched_values lux))) default_rate
       = Inr (snd (snd (enriched_values lux)))
   \<and> (derived (enrich df) = Inr (Some bs, Some es, Some cs) \<and> map_of (cols df) ''lux'' = Some xs
        \<and> i < length xs \<and> j < length xs \<and> xs ! i = xs ! j
      \<longrightarrow> bs ! i = bs ! j \<and> es ! i = es ! j \<and> cs ! i = cs ! j)"
proof -
  have same: "map_of (cols df) ''lux'' = map_of (cols df') ''lux'' \<longrightarrow> derived (enrich df) = derived (enrich df')"
  proof
    assume "map_of (cols df) ''lux'' = map_of (cols df') ''lux''"
    then have "getitem df ''lux'' = getitem df' ''lux''" by (simp add: getitem_def)
    then show "derived (enrich df) = derived (enrich df')" by (simp add: derived_enrich)
  qed
  have again: "enrich df = Inr d \<longrightarrow> derived (enrich d) = derived (enrich df)"
  proof
    assume "enrich df = Inr d"
    then have "getitem d ''lux'' = getitem df ''lux''" by (simp add: getitem_def cols_enrich_lux)
    then show "derived (enrich d) = derived (enrich df)" by (simp add: derived_enrich)
  qed
  have table: "map_of (cols df) ''lux'' = Some (map Num ls) \<longrightarrow>
        derived (enrich df) =
          Inr (Some (map (\<lambda>l. Num (fst (enriched_values l))) ls),
               Some (map (\<lambda>l. Num (fst (snd (enriched_values l)))) ls),
               Some (map (\<lambda>l. Num (snd (snd (enriched_values l)))) ls))"
    using derived_table by blast
  have b: "evaluate_brightness lux = fst (enriched_values lux)"
    by (simp add: evaluate_brightness_def enriched_values_def)
  have e: "calculate_energy_kwh (evaluate_brightness lux) default_hours default_watt
       = Inr (fst (snd (enriched_values lux)))"
    using energy_cell_table[of lux] unfolding b
    by (simp add: energy_cell_def py_bind_def split: sum.splits)
  have c: "calculate_cost (fst (snd (enriched_values lux))) default_rate
       = Inr (snd (snd (enriched_values lux)))"
    using cost_cell_table[of lux]
    by (simp add: cost_cell_def py_bind_def split: sum.splits)
  have rows: "derived (enrich df) = Inr (Some bs, Some es, Some cs) \<and> map_of (cols df) ''lux'' = Some xs
        \<and> i < length xs \<and> j < length xs \<and> xs ! i = xs ! j
      \<longrightarrow> bs ! i = bs ! j \<and> es ! i = es ! j \<and> cs ! i = cs ! j"
  proof
    assume a: "derived (enrich df) = Inr (Some bs, Some es, Some cs) \<and> map_of (cols df) ''lux'' = Some xs
        \<and> i < length xs \<and> j < length xs \<and> xs ! i = xs ! j"
    then have sb: "series_apply brightness_cell xs = Inr bs"
      and se: "series_apply energy_cell bs = Inr es"
      and sc: "series_apply cost_cell es = Inr cs"
      by (auto simp add: derived_enrich getitem_Some py_bind_def split: sum.splits)
    from a have i: "i < length xs" and j: "j < length xs" and eq: "xs ! i = xs ! j" by simp_all
    have lb: "length bs = length xs" using series_apply_nth[OF sb] by simp
    have le: "length es = length bs" using series_apply_nth[OF se] by simp
    have b_eq: "bs ! i = bs ! j" by (rule series_apply_equal[OF sb i j eq])
    have e_eq: "es ! i = es ! j" using series_apply_equal[OF se _ _ b_eq] i j lb by simp
    have c_eq: "cs ! i = cs ! j" using series_apply_equal[OF sc _ _ e_eq] i j lb le by simp
    from b_eq e_eq c_eq show "bs ! i = bs ! j \<and> es ! i = es ! j \<and> cs ! i = cs ! j" by simp
  qed
  from same again table b e c rows show ?thesis by (intro conjI)
qed

text \<open>
  The table of \<open>day_example\<close> has one reading in each bucket; \<open>same_lux_example\<close> has the \<open>lux\<close>
  column of \<open>no_brightness_example\<close> under other times.
\<close>

theorem enrichment_deterministic_witness:
  "map_of (cols no_brightness_example) ''lux'' = map_of (cols same_lux_example) ''lux''
   \<and> derived (enrich no_brightness_example) = derived (enrich same_lux_example)
   \<and> map_of (cols day_example) ''lux'' = Some (map Num [PInt 200, PInt 600, PInt 350])
   \<and> derived (enrich day_example) =
       Inr (Some [Num (PInt 80), Num (PInt 10), Num (PInt 40)],
            Some [Num (PFloat (float_lit (32 / 1000))), Num (PFloat (float_lit (4 / 1000))),
                  Num (PFloat (float_lit (16 / 1000)))],
            Some [Num (PFloat (float_lit (48 / 10000))), Num (PFloat (float_lit (6 / 10000))),
                  Num (PFloat (float_lit (24 / 10000)))])"
proof -
  have l: "map_of (cols no_brightness_example) ''lux'' = map_of (cols same_lux_example) ''lux''"
    by (simp add: no_brightness_example_def same_lux_example_def)
  have t: "map_of (cols day_example) ''lux'' = Some (map Num [PInt 200, PInt 600, PInt 350])"
    by (simp add: day_example_def)
  from enrichment_deterministic[of no_brightness_example same_lux_example] l
  have s: "derived (enrich no_brightness_example) = derived (enrich same_lux_example)" by blast
  from enrichment_deterministic[of day_example _ _ "[PInt 200, PInt 600, PInt 350]"] t
  have "derived (enrich day_example) =
          Inr (Some (map (\<lambda>l. Num (fst (enriched_values l))) [PInt 200, PInt 600, PInt 350]),
               Some (map (\<lambda>l. Num (fst (snd (enriched_values l)))) [PInt 200, PInt 600, PInt 350]),
               Some (map (\<lambda>l. Num (snd (snd (enriched_values l)))) [PInt 200, PInt 600, PInt 350]))"
    by blast
  then have "derived (enrich day_example) =
       Inr (Some [Num (PInt 80), Num (PInt 10), Num (PInt 40)],
            Some [Num (PFloat (float_lit (32 / 1000))), Num (PFloat (float_lit (4 / 1000))),
                  Num (PFloat (float_lit (16 / 1000)))],
            Some [Num (PFloat (float_lit (48 / 10000))), Num (PFloat (float_lit (6 / 10000))),
                  Num (PFloat (float_lit (24 / 10000)))])"
    by (simp add: enriched_values_def py_gt_def)
  with l s t show ?thesis by (intro conjI)
qed

section \<open>The schedule narrator\<close>

lemma join_concat: "join sep (l # rest) = l @ concat (map (\<lambda>x. sep @ x) rest)"
  by (induction rest arbitrary: l) simp_all

lemma join_lines:
  "join [CHR 0x0A] ls = (case ls of [] \<Rightarrow> [] | l # rest \<Rightarrow> l @ concat (map (\<lambda>x. CHR 0x0A # x) rest))"
  by (cases ls) (simp_all add: join_concat)

text \<open>A column of text makes the rows hold objects: every value comes as the table has it.\<close>

lemma common_dtype_text:
  assumes "map_of (cols df) c = Some col" and "Str s \<in> set col"
  shows "common_dtype df = Object"
proof -
  have "\<not> list_all is_int64 col" and "\<not> list_all is_float64 col"
    using assms(2) by (auto simp add: list_all_iff intro!: bexI[of _ "Str s"])
  then have co: "col_dtype col = Object" by (simp add: col_dtype_def)
  have mem: "(c, col) \<in> set (cols df)" using assms(1) by (rule map_of_SomeD)
  have n1: "\<not> list_all (\<lambda>d. d = Int64) (map (\<lambda>(c, col). col_dtype col) (cols df))"
    unfolding list_all_iff using mem co by force
  have n2: "\<not> list_all (\<lambda>d. d \<noteq> Object) (map (\<lambda>(c, col). col_dtype col) (cols df))"
    unfolding list_all_iff using mem co by force
  show ?thesis by (simp add: common_dtype_def Let_def n1 n2)
qed

lemma row_item_Some:
  "map_of (cols df) c = Some col \<Longrightarrow> i < length col \<Longrightarrow> row_item df i c = Inr (row_value df (col ! i))"
  by (simp add: row_item_def loc_Some py_bind_def)

lemma prompts_of_rows:
  assumes wf: "wf_frame df"
    and time: "map_of (cols df) ''time'' = Some ts"
    and lux: "map_of (cols df) ''lux'' = Some ls"
    and brightness: "map_of (cols df) ''brightness'' = Some bs"
  shows "prompts_of repr_float df
           = Inr (map (\<lambda>(t, l, b).
               prompt_line repr_float (row_value df t) (row_value df l) (row_value df b))
               (zip ts (zip ls bs)))"
proof -
  have lt: "length ts = n_rows df" and ll: "length ls = n_rows df" and lb: "length bs = n_rows df"
    using wf_frame_length[OF wf] time lux brightness by simp_all
  have "prompts_of repr_float df
          = Inr (map (\<lambda>i. prompt_line repr_float (row_value df (ts ! i)) (row_value df (ls ! i))
                  (row_value df (bs ! i))) [0..<n_rows df])"
    unfolding prompts_of_def series_apply_def
    by (rule sequence_map_Inr) (simp add: row_item_Some[OF time] row_item_Some[OF lux]
        row_item_Some[OF brightness] lt ll lb py_bind_def)
  also have "map (\<lambda>i. prompt_line repr_float (row_value df (ts ! i)) (row_value df (ls ! i))
                  (row_value df (bs ! i))) [0..<n_rows df]
               = map (\<lambda>(t, l, b).
                   prompt_line repr_float (row_value df t) (row_value df l) (row_value df b))
                   (zip ts (zip ls bs))"
    by (rule nth_equalityI) (simp_all add: lt ll lb)
  finally show ?thesis .
qed

text \<open>
  C8. On a table with the three columns the request that goes to the narrator carries one
  message, whose content is the instruction text ending in two newlines, then one line
  \<open>Time: <time>, Daylight: <lux> lux, Brightness: <brightness>%\<close> per row in row order, a
  newline between two lines, then two newlines and the format hint. The values are those of
  the row as \<open>iterrows\<close> gives it: the cells themselves where the times are text, floats on
  a table of numbers with a float column.
\<close>

theorem prompt_sent_to_narrator:
  assumes "wf_frame df"
    and "map_of (cols df) ''time'' = Some ts"
    and "map_of (cols df) ''lux'' = Some ls"
    and "map_of (cols df) ''brightness'' = Some bs"
  shows "call_groq_scheduler repr_float post df groq_api_key
           = py_bind (post (groq_request groq_api_key
               (''You are an intelligent office lighting assistant. Based on the data below, ''
                @ ''generate a natural-language schedule describing when and why lights change brightness:''
                @ [CHR 0x0A, CHR 0x0A]
                @ (case map (\<lambda>(t, l, b).
                      ''Time: '' @ py_str repr_float (row_value df t)
                        @ '', Daylight: '' @ py_str repr_float (row_value df l)
                        @ '' lux, Brightness: '' @ py_str repr_float (row_value df b) @ ''%'')
                      (zip ts (zip ls bs)) of
                     [] \<Rightarrow> []
                   | line # rest \<Rightarrow> line @ concat (map (\<lambda>x. CHR 0x0A # x) rest))
                @ [CHR 0x0A, CHR 0x0A] @ ''Format:'' @ [CHR 0x0A] @ ''Hour: Brightness % - Reason''))) read_response
         \<and> map content (messages (groq_request groq_api_key full_prompt)) = [full_prompt]
         \<and> length (zip ts (zip ls bs)) = n_rows df
         \<and> ((\<exists>s. Str s \<in> set ts) \<longrightarrow> (\<forall>v. row_value df v = v))
         \<and> (common_dtype df = Float64 \<longrightarrow>
              (\<forall>i. row_value df (Num (PInt i)) = Num (PFloat (round_double (of_int i)))))"
proof -
  have len: "length (zip ts (zip ls bs)) = n_rows df"
    using wf_frame_length[OF assms(1)] assms(2-4) by simp
  have astext: "(\<exists>s. Str s \<in> set ts) \<longrightarrow> (\<forall>v. row_value df v = v)"
  proof (intro impI allI)
    fix v
    assume "\<exists>s. Str s \<in> set ts"
    then obtain s where "Str s \<in> set ts" ..
    from common_dtype_text[OF assms(2) this] show "row_value df v = v"
      by (simp add: row_value_def)
  qed
  have asfloat: "common_dtype df = Float64 \<longrightarrow>
              (\<forall>i. row_value df (Num (PInt i)) = Num (PFloat (round_double (of_int i))))"
    by (simp add: row_value_def)
  have call: "call_groq_scheduler repr_float post df groq_api_key
           = py_bind (post (groq_request groq_api_key
               (''You are an intelligent office lighting assistant. Based on the data below, ''
                @ ''generate a natural-language schedule describing when and why lights change brightness:''
                @ [CHR 0x0A, CHR 0x0A]
                @ (case map (\<lambda>(t, l, b).
                      ''Time: '' @ py_str repr_float (row_value df t)
                        @ '', Daylight: '' @ py_str repr_float (row_value df l)
                        @ '' lux, Brightness: '' @ py_str repr_float (row_value df b) @ ''%'')
                      (zip ts (zip ls bs)) of
                     [] \<Rightarrow> []
                   | line # rest \<Rightarrow> line @ concat (map (\<lambda>x. CHR 0x0A # x) rest))
                @ [CHR 0x0A, CHR 0x0A] @ ''Format:'' @ [CHR 0x0A] @ ''Hour: Brightness % - Reason''))) read_response"
    by (simp add: call_groq_scheduler_def prompts_of_rows[OF assms] py_bind_def Let_def
        prompt_line_def join_lines preamble_def format_hint_def newline_def)
  have msg: "map content (messages (groq_request groq_api_key full_prompt)) = [full_prompt]"
    by (simp add: groq_request_def)
  from call msg len astext asfloat show ?thesis by (intro conjI)
qed

lemma int_str_examples:
  "int_str 200 = ''200''" "int_str 600 = ''600''" "int_str 80 = ''80''" "int_str 10 = ''10''"
  "int_str 900 = ''900''" "int_str 1300 = ''1300''"
  by (simp_all add: int_str_def digit_char_def)

lemma numeric_example_dtype: "common_dtype numeric_example = Float64"
  by (simp add: common_dtype_def col_dtype_def numeric_example_def Let_def num_eval)

lemma row_value_numeric_example:
  "row_value numeric_example (Num (PInt 900)) = Num (PFloat (Fin 900))"
  "row_value numeric_example (Num (PInt 1300)) = Num (PFloat (Fin 1300))"
  "row_value numeric_example (Num (PInt 200)) = Num (PFloat (Fin 200))"
  "row_value numeric_example (Num (PInt 600)) = Num (PFloat (Fin 600))"
  "row_value numeric_example (Num (PInt 80)) = Num (PFloat (Fin 80))"
  "row_value numeric_example (Num (PInt 10)) = Num (PFloat (Fin 10))"
  by (simp_all add: row_value_def numeric_example_dtype rd_auto)

text \<open>
  The prompt for the example of the specification, and for the table of numbers, where the
  row of \<open>iterrows\<close> holds floats.
\<close>

theorem prompt_sent_to_narrator_witness:
  "wf_frame schedule_example
   \<and> map_of (cols schedule_example) ''time'' = Some [Str ''09:00'', Str ''13:00'']
   \<and> map_of (cols schedule_example) ''lux'' = Some [Num (PInt 200), Num (PInt 600)]
   \<and> map_of (cols schedule_example) ''brightness'' = Some [Num (PInt 80), Num (PInt 10)]
   \<and> call_groq_scheduler repr_whole echo_network schedule_example ''gsk_example''
       = Inr (JStr (''You are an intelligent office lighting assistant. Based on the data below, ''
                @ ''generate a natural-language schedule describing when and why lights change brightness:''
                @ [CHR 0x0A, CHR 0x0A]
            @ ''Time: 09:00, Daylight: 200 lux, Brightness: 80%'' @ [CHR 0x0A]
            @ ''Time: 13:00, Daylight: 600 lux, Brightness: 10%''
            @ [CHR 0x0A, CHR 0x0A] @ ''Format:'' @ [CHR 0x0A] @ ''Hour: Brightness % - Reason''))
   \<and> wf_frame numeric_example
   \<and> map_of (cols numeric_example) ''time'' = Some [Num (PInt 900), Num (PInt 1300)]
   \<and> map_of (cols numeric_example) ''lux'' = Some [Num (PInt 200), Num (PInt 600)]
   \<and> map_of (cols numeric_example) ''brightness'' = Some [Num (PInt 80), Num (PInt 10)]
   \<and> call_groq_scheduler repr_whole echo_network numeric_example ''gsk_example''
       = Inr (JStr (''You are an intelligent office lighting assistant. Based on the data below, ''
                @ ''generate a natural-language schedule describing when and why lights change brightness:''
                @ [CHR 0x0A, CHR 0x0A]
            @ ''Time: 900.0, Daylight: 200.0 lux, Brightness: 80.0%'' @ [CHR 0x0A]
            @ ''Time: 1300.0, Daylight: 600.0 lux, Brightness: 10.0%''
            @ [CHR 0x0A, CHR 0x0A] @ ''Format:'' @ [CHR 0x0A] @ ''Hour: Brightness % - Reason''))"
proof -
  have wf: "wf_frame schedule_example" by (simp add: wf_frame_def schedule_example_def)
  have t: "map_of (cols schedule_example) ''time'' = Some [Str ''09:00'', Str ''13:00'']"
    by (simp add: schedule_example_def)
  have l: "map_of (cols schedule_example) ''lux'' = Some [Num (PInt 200), Num (PInt 600)]"
    by (simp add: schedule_example_def)
  have b: "map_of (cols schedule_example) ''brightness'' = Some [Num (PInt 80), Num (PInt 10)]"
    by (simp add: schedule_example_def)
  note c = prompt_sent_to_narrator[OF wf t l b, of repr_whole echo_network "''gsk_example''" "[]"]
  have "\<exists>s. Str s \<in> set [Str ''09:00'', Str ''13:00'']" by auto
  with c[THEN conjunct2, THEN conjunct2, THEN conjunct2, THEN conjunct1]
  have asis: "\<And>v. row_value schedule_example v = v" by blast
  have first: "call_groq_scheduler repr_whole echo_network schedule_example ''gsk_example''
       = Inr (JStr (''You are an intelligent office lighting assistant. Based on the data below, ''
                @ ''generate a natural-language schedule describing when and why lights change brightness:''
                @ [CHR 0x0A, CHR 0x0A]
            @ ''Time: 09:00, Daylight: 200 lux, Brightness: 80%'' @ [CHR 0x0A]
            @ ''Time: 13:00, Daylight: 600 lux, Brightness: 10%''
            @ [CHR 0x0A, CHR 0x0A] @ ''Format:'' @ [CHR 0x0A] @ ''Hour: Brightness % - Reason''))"
    using c[THEN conjunct1]
    by (simp add: asis int_str_examples echo_network_def groq_request_def read_response_def
        try_except_def py_bind_def)
  have wf': "wf_frame numeric_example" by (simp add: wf_frame_def numeric_example_def)
  have t': "map_of (cols numeric_example) ''time'' = Some [Num (PInt 900), Num (PInt 1300)]"
    by (simp add: numeric_example_def)
  have l': "map_of (cols numeric_example) ''lux'' = Some [Num (PInt 200), Num (PInt 600)]"
    by (simp add: numeric_example_def)
  have b': "map_of (cols numeric_example) ''brightness'' = Some [Num (PInt 80), Num (PInt 10)]"
    by (simp add: numeric_example_def)
  have second: "call_groq_scheduler repr_whole echo_network numeric_example ''gsk_example''
       = Inr (JStr (''You are an intelligent office lighting assistant. Based on the data below, ''
                @ ''generate a natural-language schedule describing when and why lights change brightness:''
                @ [CHR 0x0A, CHR 0x0A]
            @ ''Time: 900.0, Daylight: 200.0 lux, Brightness: 80.0%'' @ [CHR 0x0A]
            @ ''Time: 1300.0, Daylight: 600.0 lux, Brightness: 10.0%''
            @ [CHR 0x0A, CHR 0x0A] @ ''Format:'' @ [CHR 0x0A] @ ''Hour: Brightness % - Reason''))"
    using prompt_sent_to_narrator[OF wf' t' l' b', of repr_whole echo_network "''gsk_example''"]
    by (simp add: row_value_numeric_example int_str_examples echo_network_def groq_request_def
        read_response_def try_except_def py_bind_def)
  from wf t l b first wf' t' l' b' second show ?thesis by (intro conjI)
qed

lemma prompts_of_schedule_example:
  "\<exists>ps. prompts_of repr_float schedule_example = Inr ps"
proof -
  have wf: "wf_frame schedule_example" by (simp add: wf_frame_def schedule_example_def)
  have t: "map_of (cols schedule_example) ''time'' = Some [Str ''09:00'', Str ''13:00'']"
    by (simp add: schedule_example_def)
  have l: "map_of (cols schedule_example) ''lux'' = Some [Num (PInt 200), Num (PInt 600)]"
    by (simp add: schedule_example_def)
  have b: "map_of (cols schedule_example) ''brightness'' = Some [Num (PInt 80), Num (PInt 10)]"
    by (simp add: schedule_example_def)
  show ?thesis using prompts_of_rows[OF wf t l b] by blast
qed

text \<open>The \<open>try\<close> of lines 49 to 53 catches whatever the decoding raises.\<close>

lemma read_response_returns: "\<exists>v. read_response response = Inr v"
  by (simp add: read_response_def try_except_def split: sum.splits)

lemma read_response_decode_error:
  "read_response (Inl e) = Inr (JStr (request_failed @ exc_str e))"
  by (simp add: read_response_def try_except_def py_bind_def)

text \<open>What the function returns is the \<open>content\<close> of the response, whatever its type.\<close>

lemma call_groq_scheduler_null_content:
  "call_groq_scheduler repr_float null_content_network schedule_example groq_api_key = Inr JNull"
proof -
  from prompts_of_schedule_example obtain ps where "prompts_of repr_float schedule_example = Inr ps"
    by blast
  then show ?thesis
    by (simp add: call_groq_scheduler_def null_content_network_def read_response_def
        try_except_def py_bind_def Let_def)
qed

text \<open>The list comprehension stands before the \<open>try\<close> as well.\<close>

lemma call_groq_scheduler_missing_column:
  "call_groq_scheduler repr_float post no_brightness_example groq_api_key
     = Inl (KeyError (quoted ''brightness''))"
  by (simp add: call_groq_scheduler_def prompts_of_def series_apply_def no_brightness_example_def
      row_item_def loc_def getitem_def py_bind_def upt_rec)

text \<open>
  C1. The claim is that \<open>call_groq_scheduler\<close> always returns a string and that a transport
  failure becomes a message. \<open>requests.post\<close> (line 37) stands before the \<open>try\<close> (line 49):
  on the example table, with any API key, a network that raises makes the function raise
  the same exception.
\<close>

theorem transport_failure_propagates:
  "call_groq_scheduler repr_float down_network schedule_example groq_api_key
     = Inl (RequestException ''Connection refused'')"
proof -
  from prompts_of_schedule_example obtain ps where "prompts_of repr_float schedule_example = Inr ps"
    by blast
  then show ?thesis
    by (simp add: call_groq_scheduler_def down_network_def py_bind_def Let_def)
qed

end
